theory Spec2Isabelle
  imports Main
begin

section \<open>The Tezos account bridge (src/families/tezos/bridge/libcore.js)\<close>

text \<open>
  A shallow embedding of the transaction-preparation and status-computation functions of
  the Tezos bridge. The asynchronous functions of the source are modelled sequentially:
  every \<^verbatim>\<open>await\<close> is a step of a state-passing function over a \<open>world\<close>, which holds the
  two LRU caches of the module and a log of the calls made to collaborators. A promise is
  modelled by its outcome, \<open>Resolved v\<close> or \<open>Rejected e\<close>.

  \<^verbatim>\<open>BigNumber\<close> values are amounts in the smallest currency unit and are modelled as \<open>int\<close>
  (\<open>plus\<close>, \<open>minus\<close>, \<open>times\<close> and \<open>gt\<close> of bignumber.js are exact on them); NaN and the
  infinities are not modelled. A nullable field (\<^verbatim>\<open>?BigNumber\<close>, \<^verbatim>\<open>?string\<close>) is an \<open>option\<close>.
\<close>

subsection \<open>Data model\<close>

type_synonym bignumber = int

datatype js_error = JsError (name: string) (message: string)

datatype 'a promise = Resolved 'a | Rejected js_error

record subAccount =
  sub_id :: string
  sub_balance :: bignumber

record account =
  acc_id :: string
  balance :: bignumber
  currency :: string
  subAccounts :: "subAccount list option"
  freshAddress :: string

record network_info =
  ni_family :: string
  ni_fees :: bignumber

record transaction =
  family :: string
  mode :: string
  amount :: bignumber
  fees :: "bignumber option"
  gasLimit :: "bignumber option"
  storageLimit :: "bignumber option"
  recipient :: string
  networkInfo :: "network_info option"
  subAccountId :: "string option"
  useAllAmount :: bool

text \<open>
  Modelled from the spec: the result of \<open>validateRecipient\<close> (bridge/shared.js is not under
  src/). Section 6: it "never throws for a merely-invalid address (returns a structured
  result instead)", so the validator is a total function to this record, whose fields are
  the optional hard error and the optional soft warning.
\<close>

record validation =
  recipientError :: "js_error option"
  recipientWarning :: "js_error option"

text \<open>The object returned by \<^verbatim>\<open>estimateGasLimitAndStorage\<close>.\<close>

record estimate =
  est_gasLimit :: bignumber
  est_storage :: bignumber

text \<open>The \<^verbatim>\<open>errors\<close> and \<^verbatim>\<open>warnings\<close> objects of a status; an unset property is \<open>None\<close>.\<close>

record status_errors =
  err_fees :: "js_error option"
  err_amount :: "js_error option"
  err_transaction :: "js_error option"
  err_recipient :: "js_error option"

record status_warnings =
  warn_feeTooHigh :: "js_error option"
  warn_recipient :: "js_error option"

record status =
  errors :: status_errors
  warnings :: status_warnings
  estimatedFees :: bignumber
  st_amount :: bignumber
  totalSpent :: bignumber
  recipientIsReadOnly :: bool

text \<open>
  What \<^verbatim>\<open>prepareTransaction\<close> returns: the draft it was given (\<^verbatim>\<open>return t\<close>, the same
  reference) or a new object (\<^verbatim>\<open>return { ...t, ... }\<close>).
\<close>

datatype draft_ref = SameRef transaction | FreshCopy transaction

fun deref :: "draft_ref \<Rightarrow> transaction" where
  "deref (SameRef t) = t"
| "deref (FreshCopy t) = t"

subsection \<open>Collaborators and the world\<close>

text \<open>The calls the bridge makes, in the order it makes them.\<close>

datatype call =
  CallGetAccountNetworkInfo string
| CallValidateRecipient string string
| CallCalculateFees string
| CallGetFeesForTransaction string
| CallEstimateGasLimitAndStorage string
| CallLibcoreEstimate string string

record world =
  feesCache :: "(string \<times> bignumber) list"
  estimateCache :: "(string \<times> estimate) list"
  calls :: "call list"

text \<open>
  The collaborators imported by the module, none of them under src/, taken as parameters.
  \<open>getAccountNetworkInfo\<close>, \<open>getFeesForTransaction\<close> and the libcore calls may reject;
  \<open>validateRecipient\<close> returns a \<open>validation\<close>. \<open>bnToString\<close> is
  \<^verbatim>\<open>BigNumber.prototype.toString\<close>; \<open>cacheMax\<close> is the capacity of an LRU cache.
\<close>

record env =
  getAccountNetworkInfo :: "account \<Rightarrow> network_info promise"
  validateRecipient :: "string \<Rightarrow> string \<Rightarrow> validation"
  getFeesForTransaction :: "account \<Rightarrow> transaction \<Rightarrow> bignumber promise"
  getTezosLikeAccount :: "account \<Rightarrow> unit promise"
  getEstimatedGasLimit :: "account \<Rightarrow> string \<Rightarrow> bignumber promise"
  getStorage :: "account \<Rightarrow> string \<Rightarrow> bignumber promise"
  bnToString :: "bignumber \<Rightarrow> string"
  cacheMax :: nat

definition logCall :: "call \<Rightarrow> world \<Rightarrow> world" where
  "logCall c w = w\<lparr>calls := calls w @ [c]\<rparr>"

text \<open>JavaScript truthiness of a string and of a nullable string.\<close>

definition truthy :: "string \<Rightarrow> bool" where
  "truthy s = (s \<noteq> [])"

definition truthy_opt :: "string option \<Rightarrow> bool" where
  "truthy_opt s = (case s of None \<Rightarrow> False | Some x \<Rightarrow> truthy x)"

subsection \<open>The memoizing cache\<close>

text \<open>
  Modelled from the spec: \<open>makeLRUCache\<close> (cache.js is not under src/). Section 4.1: on each
  call compute the key; if an entry for the key exists, return what it stores and do not
  invoke the computation; otherwise invoke it, store the result under the key and evict the
  least recently used entry once the capacity is exceeded; a rejection is not cached. The
  cache is an association list, most recently used first. Expiry by age is not modelled.
  \<open>getC\<close> and \<open>setC\<close> select the cache of the wrapped function in the world.
\<close>

definition makeLRUCache ::
  "nat \<Rightarrow> (world \<Rightarrow> (string \<times> 'v) list) \<Rightarrow> ((string \<times> 'v) list \<Rightarrow> world \<Rightarrow> world) \<Rightarrow>
   (world \<Rightarrow> 'v promise \<times> world) \<Rightarrow> string \<Rightarrow> world \<Rightarrow> 'v promise \<times> world" where
  "makeLRUCache cap getC setC f key w =
     (case map_of (getC w) key of
        Some v \<Rightarrow> (Resolved v, setC ((key, v) # filter (\<lambda>p. fst p \<noteq> key) (getC w)) w)
      | None \<Rightarrow>
          (case f w of
             (Rejected e, w') \<Rightarrow> (Rejected e, w')
           | (Resolved v, w') \<Rightarrow>
               (Resolved v,
                setC (take cap ((key, v) # filter (\<lambda>p. fst p \<noteq> key) (getC w'))) w')))"

subsection \<open>estimateGasLimitAndStorage\<close>

text \<open>
  Lines 23-37. The computation obtains the Tezos-like core account, then the estimated gas
  limit, then the storage, each awaited in turn; the key is \<^verbatim>\<open>a.id + "|" + addr\<close>.
\<close>

definition estimate_key :: "account \<Rightarrow> string \<Rightarrow> string" where
  "estimate_key a addr = acc_id a @ ''|'' @ addr"

definition estimate_compute :: "env \<Rightarrow> account \<Rightarrow> string \<Rightarrow> world \<Rightarrow> estimate promise \<times> world" where
  "estimate_compute env a addr w =
     (let w1 = logCall (CallLibcoreEstimate (acc_id a) addr) w in
      case getTezosLikeAccount env a of
        Rejected e \<Rightarrow> (Rejected e, w1)
      | Resolved _ \<Rightarrow>
          (case getEstimatedGasLimit env a addr of
             Rejected e \<Rightarrow> (Rejected e, w1)
           | Resolved g \<Rightarrow>
               (case getStorage env a addr of
                  Rejected e \<Rightarrow> (Rejected e, w1)
                | Resolved s \<Rightarrow> (Resolved \<lparr>est_gasLimit = g, est_storage = s\<rparr>, w1))))"

definition estimateGasLimitAndStorage ::
  "env \<Rightarrow> world \<Rightarrow> account \<Rightarrow> string \<Rightarrow> estimate promise \<times> world" where
  "estimateGasLimitAndStorage env w a addr =
     makeLRUCache (cacheMax env) estimateCache (\<lambda>c. estimateCache_update (\<lambda>_. c))
       (estimate_compute env a addr) (estimate_key a addr)
       (logCall (CallEstimateGasLimitAndStorage (estimate_key a addr)) w)"

subsection \<open>calculateFees\<close>

text \<open>
  Lines 39-54. The key is the template string of lines 49-53; a \<^verbatim>\<open>BigNumber\<close> object is
  truthy whatever its value, so \<^verbatim>\<open>t.gasLimit ? t.gasLimit.toString() : ""\<close> is the empty
  string exactly when the field is null.
\<close>

definition bnOrEmpty :: "env \<Rightarrow> bignumber option \<Rightarrow> string" where
  "bnOrEmpty env x = (case x of Some b \<Rightarrow> bnToString env b | None \<Rightarrow> [])"

definition calculateFees_key :: "env \<Rightarrow> account \<Rightarrow> transaction \<Rightarrow> string" where
  "calculateFees_key env a t =
     acc_id a @ ''_'' @ bnToString env (amount t) @ ''_'' @ recipient t @ ''_'' @
     bnOrEmpty env (gasLimit t) @ ''_'' @ bnOrEmpty env (fees t) @ ''_'' @
     bnOrEmpty env (storageLimit t)"

definition calculateFees_compute ::
  "env \<Rightarrow> account \<Rightarrow> transaction \<Rightarrow> world \<Rightarrow> bignumber promise \<times> world" where
  "calculateFees_compute env a t w =
     (let w1 = logCall (CallValidateRecipient (currency a) (recipient t)) w in
      case recipientError (validateRecipient env (currency a) (recipient t)) of
        Some e \<Rightarrow> (Rejected e, w1)
      | None \<Rightarrow>
          (getFeesForTransaction env a t, logCall (CallGetFeesForTransaction (acc_id a)) w1))"

definition calculateFees :: "env \<Rightarrow> world \<Rightarrow> account \<Rightarrow> transaction \<Rightarrow> bignumber promise \<times> world" where
  "calculateFees env w a t =
     makeLRUCache (cacheMax env) feesCache (\<lambda>c. feesCache_update (\<lambda>_. c))
       (calculateFees_compute env a t) (calculateFees_key env a t)
       (logCall (CallCalculateFees (calculateFees_key env a t)) w)"

subsection \<open>createTransaction\<close>

definition createTransaction :: transaction where
  "createTransaction =
     \<lparr>family = ''tezos'', mode = ''send'', amount = 0, fees = None, gasLimit = None,
      storageLimit = None, recipient = [], networkInfo = None, subAccountId = None,
      useAllAmount = False\<rparr>"

subsection \<open>getTransactionStatus\<close>

text \<open>The error values constructed by the module (classes of @ledgerhq/errors and the
  error thrown by \<^verbatim>\<open>invariant\<close>).\<close>

definition FeeNotLoaded :: js_error where
  "FeeNotLoaded = JsError ''FeeNotLoaded'' ''FeeNotLoaded''"

definition FeeTooHigh :: js_error where
  "FeeTooHigh = JsError ''FeeTooHigh'' ''FeeTooHigh''"

definition InvariantViolation :: js_error where
  "InvariantViolation = JsError ''Invariant Violation'' ''tezos networkInfo expected''"

definition noErrors :: status_errors where
  "noErrors = \<lparr>err_fees = None, err_amount = None, err_transaction = None, err_recipient = None\<rparr>"

definition noWarnings :: status_warnings where
  "noWarnings = \<lparr>warn_feeTooHigh = None, warn_recipient = None\<rparr>"

text \<open>
  Lines 81-83: \<^verbatim>\<open>subAcc\<close>. \<^verbatim>\<open>!t.subAccountId\<close> holds for null and for the empty string; a
  missing \<^verbatim>\<open>a.subAccounts\<close> and a \<^verbatim>\<open>find\<close> without a match both leave \<^verbatim>\<open>subAcc\<close> falsy.
\<close>

definition findSubAccount :: "account \<Rightarrow> transaction \<Rightarrow> subAccount option" where
  "findSubAccount a t =
     (if \<not> truthy_opt (subAccountId t) then None
      else case subAccounts a of
             None \<Rightarrow> None
           | Some sas \<Rightarrow> List.find (\<lambda>ta. Some (sub_id ta) = subAccountId t) sas)"

text \<open>Line 84 and its uses: \<^verbatim>\<open>account = subAcc || a\<close>, read only through \<^verbatim>\<open>account.balance\<close>.\<close>

definition accountBalance :: "account \<Rightarrow> transaction \<Rightarrow> bignumber" where
  "accountBalance a t =
     (case findSubAccount a t of Some subAcc \<Rightarrow> sub_balance subAcc | None \<Rightarrow> balance a)"

text \<open>Lines 86-104: the estimated fees and the errors recorded while obtaining them.\<close>

definition estimateFees ::
  "env \<Rightarrow> world \<Rightarrow> account \<Rightarrow> transaction \<Rightarrow> (bignumber \<times> status_errors) \<times> world" where
  "estimateFees env w a t =
     (case fees t of
        None \<Rightarrow> ((0, noErrors\<lparr>err_fees := Some FeeNotLoaded\<rparr>), w)
      | Some _ \<Rightarrow>
          (case calculateFees env w a t of
             (Resolved f, w') \<Rightarrow> ((f, noErrors), w')
           | (Rejected error, w') \<Rightarrow>
               (if name error = ''NotEnoughBalance''
                then ((0, noErrors\<lparr>err_amount := Some error\<rparr>), w')
                else ((0, noErrors\<lparr>err_transaction := Some error\<rparr>), w'))))"

definition getTransactionStatus ::
  "env \<Rightarrow> world \<Rightarrow> account \<Rightarrow> transaction \<Rightarrow> status promise \<times> world" where
  "getTransactionStatus env w a t =
     (case estimateFees env w a t of
        ((estimatedFees', errors1), w1) \<Rightarrow>
          (let totalSpent' =
                 (if \<not> useAllAmount t then amount t + estimatedFees' else accountBalance a t);
               amount' =
                 (if useAllAmount t then accountBalance a t - estimatedFees' else amount t);
               warnings1 =
                 (if amount' > 0 \<and> estimatedFees' * 10 > amount'
                  then noWarnings\<lparr>warn_feeTooHigh := Some FeeTooHigh\<rparr> else noWarnings);
               v = validateRecipient env (currency a) (recipient t);
               w2 = logCall (CallValidateRecipient (currency a) (recipient t)) w1;
               errors2 =
                 (case recipientError v of
                    Some e \<Rightarrow> errors1\<lparr>err_recipient := Some e\<rparr> | None \<Rightarrow> errors1);
               warnings2 =
                 (case recipientWarning v of
                    Some e \<Rightarrow> warnings1\<lparr>warn_recipient := Some e\<rparr> | None \<Rightarrow> warnings1)
           in (Resolved
                 \<lparr>errors = errors2, warnings = warnings2, estimatedFees = estimatedFees',
                  st_amount = amount', totalSpent = totalSpent',
                  recipientIsReadOnly = truthy_opt (subAccountId t)\<rparr>,
               w2)))"

subsection \<open>prepareTransaction\<close>

text \<open>Lines 142-147: the network info, fetched and checked only when the draft has none.\<close>

definition resolveNetworkInfo ::
  "env \<Rightarrow> world \<Rightarrow> account \<Rightarrow> transaction \<Rightarrow> network_info promise \<times> world" where
  "resolveNetworkInfo env w a t =
     (case networkInfo t of
        Some ni \<Rightarrow> (Resolved ni, w)
      | None \<Rightarrow>
          (let w1 = logCall (CallGetAccountNetworkInfo (acc_id a)) w in
           case getAccountNetworkInfo env a of
             Rejected e \<Rightarrow> (Rejected e, w1)
           | Resolved ni \<Rightarrow>
               (if ni_family ni = ''tezos'' then (Resolved ni, w1)
                else (Rejected InvariantViolation, w1))))"

text \<open>Lines 149-158: the gas limit and the storage limit.\<close>

definition resolveGasAndStorage ::
  "env \<Rightarrow> world \<Rightarrow> account \<Rightarrow> transaction \<Rightarrow>
   (bignumber option \<times> bignumber option) promise \<times> world" where
  "resolveGasAndStorage env w a t =
     (if (gasLimit t = None \<or> storageLimit t = None) \<and> truthy (recipient t) then
        (let w1 = logCall (CallValidateRecipient (currency a) (recipient t)) w in
         case recipientError (validateRecipient env (currency a) (recipient t)) of
           Some _ \<Rightarrow> (Resolved (gasLimit t, storageLimit t), w1)
         | None \<Rightarrow>
             (case estimateGasLimitAndStorage env w1 a (recipient t) of
                (Rejected e, w2) \<Rightarrow> (Rejected e, w2)
              | (Resolved r, w2) \<Rightarrow>
                  (Resolved (Some (est_gasLimit r), Some (est_storage r)), w2)))
      else (Resolved (gasLimit t, storageLimit t), w))"

text \<open>
  Lines 141-178. The comparisons of lines 168-172 are by reference in the source and by
  value here. They agree: each resolved value is either the very value read from \<open>t\<close>, or
  a non-null value that replaces a null one, or a string.
\<close>

definition prepareTransaction ::
  "env \<Rightarrow> world \<Rightarrow> account \<Rightarrow> transaction \<Rightarrow> draft_ref promise \<times> world" where
  "prepareTransaction env w a t =
     (case resolveNetworkInfo env w a t of
        (Rejected e, w1) \<Rightarrow> (Rejected e, w1)
      | (Resolved networkInfo', w1) \<Rightarrow>
          (case resolveGasAndStorage env w1 a t of
             (Rejected e, w2) \<Rightarrow> (Rejected e, w2)
           | (Resolved (gasLimit', storageLimit'), w2) \<Rightarrow>
               (let fees' = (case fees t of Some f \<Rightarrow> Some f | None \<Rightarrow> Some (ni_fees networkInfo'));
                    recipient' =
                      (if truthy_opt (subAccountId t) \<and> \<not> truthy (recipient t)
                       then freshAddress a else recipient t)
                in if networkInfo t \<noteq> Some networkInfo' \<or> gasLimit t \<noteq> gasLimit' \<or>
                      storageLimit t \<noteq> storageLimit' \<or> fees t \<noteq> fees' \<or>
                      recipient t \<noteq> recipient'
                   then (Resolved
                           (FreshCopy
                              (t\<lparr>networkInfo := Some networkInfo', storageLimit := storageLimit',
                                 gasLimit := gasLimit', fees := fees', recipient := recipient'\<rparr>)),
                         w2)
                   else (Resolved (SameRef t), w2))))"

subsection \<open>A decimal printer and example collaborators\<close>

text \<open>
  Concrete values on which the theorems below are instantiated: a decimal \<open>toString\<close> for
  integers, a validator that accepts the addresses starting with \<open>tz\<close>, a pricing function
  that charges the draft's fee and rejects with \<open>NotEnoughBalance\<close> when amount plus fee
  exceeds the balance, and a libcore that estimates constant gas and storage.
\<close>

definition digitChar :: "nat \<Rightarrow> char" where
  "digitChar d = char_of (48 + d)"

function natDigits :: "nat \<Rightarrow> string" where
  "natDigits n =
     (if n < 10 then [digitChar n] else natDigits (n div 10) @ [digitChar (n mod 10)])"
  by pat_completeness auto
termination
  by (relation "measure id") auto

declare natDigits.simps [simp del]

definition decimal :: "int \<Rightarrow> string" where
  "decimal i = (if i < 0 then CHR ''-'' # natDigits (nat (- i)) else natDigits (nat i))"

definition RecipientRequired :: js_error where
  "RecipientRequired = JsError ''RecipientRequired'' []"

definition InvalidAddress :: js_error where
  "InvalidAddress = JsError ''InvalidAddress'' []"

definition NotEnoughBalance :: js_error where
  "NotEnoughBalance = JsError ''NotEnoughBalance'' ''NotEnoughBalance''"

definition LibcoreFailure :: js_error where
  "LibcoreFailure = JsError ''Error'' ''libcore: cannot estimate''"

definition NetworkDown :: js_error where
  "NetworkDown = JsError ''NetworkDown'' []"

definition exampleValidate :: "string \<Rightarrow> string \<Rightarrow> validation" where
  "exampleValidate cur addr =
     (if addr = [] then \<lparr>recipientError = Some RecipientRequired, recipientWarning = None\<rparr>
      else if take 2 addr = ''tz'' then \<lparr>recipientError = None, recipientWarning = None\<rparr>
      else \<lparr>recipientError = Some InvalidAddress, recipientWarning = None\<rparr>)"

definition examplePricing :: "account \<Rightarrow> transaction \<Rightarrow> bignumber promise" where
  "examplePricing a t =
     (case fees t of
        None \<Rightarrow> Rejected LibcoreFailure
      | Some f \<Rightarrow> if amount t + f > balance a then Rejected NotEnoughBalance else Resolved f)"

definition exampleEnv :: env where
  "exampleEnv =
     \<lparr>getAccountNetworkInfo = (\<lambda>a. Resolved \<lparr>ni_family = ''tezos'', ni_fees = 1420\<rparr>),
      validateRecipient = exampleValidate,
      getFeesForTransaction = examplePricing,
      getTezosLikeAccount = (\<lambda>a. Resolved ()),
      getEstimatedGasLimit = (\<lambda>a addr. Resolved 10300),
      getStorage = (\<lambda>a addr. Resolved 300),
      bnToString = decimal,
      cacheMax = 100\<rparr>"

definition emptyWorld :: world where
  "emptyWorld = \<lparr>feesCache = [], estimateCache = [], calls = []\<rparr>"

definition exampleAccount :: account where
  "exampleAccount =
     \<lparr>acc_id = ''tezos:1'', balance = 5000, currency = ''tezos'',
      subAccounts = Some [\<lparr>sub_id = ''tezos:1+KT1'', sub_balance = 700\<rparr>],
      freshAddress = ''tz1fresh''\<rparr>"

text \<open>Environments in which one collaborator misbehaves.\<close>

definition failingEstimateEnv :: env where
  "failingEstimateEnv = exampleEnv\<lparr>getStorage := (\<lambda>a addr. Rejected LibcoreFailure)\<rparr>"

definition offlineEnv :: env where
  "offlineEnv = exampleEnv\<lparr>getAccountNetworkInfo := (\<lambda>a. Rejected NetworkDown)\<rparr>"

definition bitcoinEnv :: env where
  "bitcoinEnv =
     exampleEnv\<lparr>getAccountNetworkInfo := (\<lambda>a. Resolved \<lparr>ni_family = ''bitcoin'', ni_fees = 1\<rparr>)\<rparr>"

text \<open>Drafts: a fresh draft with a recipient, the same after preparation, the same with
  its network info only, a draft with an address the validator refuses, and drafts that
  target a sub-account.\<close>

definition sendDraft :: transaction where
  "sendDraft = createTransaction\<lparr>recipient := ''tz1abc''\<rparr>"

definition preparedDraft :: transaction where
  "preparedDraft =
     sendDraft\<lparr>networkInfo := Some \<lparr>ni_family = ''tezos'', ni_fees = 1420\<rparr>,
       storageLimit := Some 300, gasLimit := Some 10300, fees := Some 1420\<rparr>"

definition networkReadyDraft :: transaction where
  "networkReadyDraft =
     sendDraft\<lparr>networkInfo := Some \<lparr>ni_family = ''tezos'', ni_fees = 1420\<rparr>\<rparr>"

definition bogusDraft :: transaction where
  "bogusDraft = createTransaction\<lparr>recipient := ''bogus''\<rparr>"

definition subAccountDraft :: transaction where
  "subAccountDraft = createTransaction\<lparr>subAccountId := Some ''tezos:1+KT1''\<rparr>"

definition danglingDraft :: transaction where
  "danglingDraft =
     createTransaction\<lparr>recipient := ''tz1abc'', fees := Some 11, useAllAmount := True,
       subAccountId := Some ''tezos:1+gone''\<rparr>"

text \<open>A draft of 100 with a given fee, a draft that spends more than the balance, a draft
  in all-balance mode, and an environment whose pricing always fails.\<close>

definition feeDraft :: "bignumber \<Rightarrow> transaction" where
  "feeDraft f = createTransaction\<lparr>recipient := ''tz1abc'', amount := 100, fees := Some f\<rparr>"

definition overdraftDraft :: transaction where
  "overdraftDraft = createTransaction\<lparr>recipient := ''tz1abc'', amount := 5000, fees := Some 11\<rparr>"

definition allBalanceDraft :: transaction where
  "allBalanceDraft =
     createTransaction\<lparr>recipient := ''tz1abc'', fees := Some 11, useAllAmount := True,
       subAccountId := Some ''tezos:1+KT1''\<rparr>"

definition brokenPricingEnv :: env where
  "brokenPricingEnv = exampleEnv\<lparr>getFeesForTransaction := (\<lambda>a t. Rejected LibcoreFailure)\<rparr>"

section \<open>Properties\<close>

subsection \<open>The world and the log of calls\<close>

lemma calls_logCall [simp]: "calls (logCall c w) = calls w @ [c]"
  by (simp add: logCall_def)

lemma feesCache_logCall [simp]: "feesCache (logCall c w) = feesCache w"
  by (simp add: logCall_def)

lemma estimateCache_logCall [simp]: "estimateCache (logCall c w) = estimateCache w"
  by (simp add: logCall_def)

lemma estimate_compute_calls:
  "calls (snd (estimate_compute env a addr w)) = calls w @ [CallLibcoreEstimate (acc_id a) addr]"
  by (simp add: estimate_compute_def Let_def split: promise.splits)

lemma estimateGasLimitAndStorage_calls:
  "\<exists>cs. calls (snd (estimateGasLimitAndStorage env w a addr)) =
          calls w @ CallEstimateGasLimitAndStorage (estimate_key a addr) # cs \<and>
        set cs \<subseteq> {CallLibcoreEstimate (acc_id a) addr}"
proof -
  let ?w0 = "logCall (CallEstimateGasLimitAndStorage (estimate_key a addr)) w"
  have c: "calls (snd (estimate_compute env a addr ?w0)) =
           calls w @ [CallEstimateGasLimitAndStorage (estimate_key a addr),
                      CallLibcoreEstimate (acc_id a) addr]"
    by (simp add: estimate_compute_calls)
  show ?thesis
  proof (cases "map_of (estimateCache ?w0) (estimate_key a addr)")
    case (Some v)
    then show ?thesis
      by (simp add: estimateGasLimitAndStorage_def makeLRUCache_def)
  next
    case None
    obtain p w' where f: "estimate_compute env a addr ?w0 = (p, w')"
      by (cases "estimate_compute env a addr ?w0")
    with c have "calls w' = calls w @ [CallEstimateGasLimitAndStorage (estimate_key a addr),
                      CallLibcoreEstimate (acc_id a) addr]" by simp
    with None f show ?thesis
      by (cases p) (simp_all add: estimateGasLimitAndStorage_def makeLRUCache_def)
  qed
qed

lemma resolveGasAndStorage_calls:
  "\<exists>cs. calls (snd (resolveGasAndStorage env w a t)) = calls w @ cs \<and>
        (\<forall>x. CallGetAccountNetworkInfo x \<notin> set cs)"
proof (cases "(gasLimit t = None \<or> storageLimit t = None) \<and> truthy (recipient t)")
  case False
  then show ?thesis by (auto simp: resolveGasAndStorage_def)
next
  case True
  let ?w1 = "logCall (CallValidateRecipient (currency a) (recipient t)) w"
  show ?thesis
  proof (cases "recipientError (validateRecipient env (currency a) (recipient t))")
    case (Some e)
    with True show ?thesis by (auto simp: resolveGasAndStorage_def Let_def)
  next
    case None
    obtain cs where cs: "calls (snd (estimateGasLimitAndStorage env ?w1 a (recipient t))) =
          calls ?w1 @ CallEstimateGasLimitAndStorage (estimate_key a (recipient t)) # cs"
        and sub: "set cs \<subseteq> {CallLibcoreEstimate (acc_id a) (recipient t)}"
      using estimateGasLimitAndStorage_calls by blast
    obtain p w2 where e: "estimateGasLimitAndStorage env ?w1 a (recipient t) = (p, w2)"
      by (cases "estimateGasLimitAndStorage env ?w1 a (recipient t)")
    with cs have "calls w2 = calls w @ (CallValidateRecipient (currency a) (recipient t) #
          CallEstimateGasLimitAndStorage (estimate_key a (recipient t)) # cs)" by simp
    moreover have "\<forall>x. CallGetAccountNetworkInfo x \<notin> set (CallValidateRecipient (currency a) (recipient t) #
          CallEstimateGasLimitAndStorage (estimate_key a (recipient t)) # cs)"
      using sub by auto
    moreover have "snd (resolveGasAndStorage env w a t) = w2"
      using True None e by (cases p) (simp_all add: resolveGasAndStorage_def Let_def)
    ultimately show ?thesis by metis
  qed
qed

lemma resolveGasAndStorage_rejected:
  "fst (resolveGasAndStorage env w a t) = Rejected e \<Longrightarrow>
   fst (estimateGasLimitAndStorage env (logCall (CallValidateRecipient (currency a) (recipient t)) w)
          a (recipient t)) = Rejected e"
  by (auto simp: resolveGasAndStorage_def Let_def split: if_splits option.splits prod.splits promise.splits)

subsection \<open>The outcome of the estimator depends on its cache only\<close>

lemma estimate_compute_outcome:
  "fst (estimate_compute env a addr w) = fst (estimate_compute env a addr w')"
  by (simp add: estimate_compute_def Let_def split: promise.splits)

lemma estimateGasLimitAndStorage_outcome:
  assumes "estimateCache w = estimateCache w'"
  shows "fst (estimateGasLimitAndStorage env w a addr) = fst (estimateGasLimitAndStorage env w' a addr)"
proof -
  let ?k = "estimate_key a addr"
  let ?w0 = "logCall (CallEstimateGasLimitAndStorage ?k) w"
  let ?w0' = "logCall (CallEstimateGasLimitAndStorage ?k) w'"
  have o: "fst (estimate_compute env a addr ?w0) = fst (estimate_compute env a addr ?w0')"
    by (rule estimate_compute_outcome)
  obtain p w1 where f: "estimate_compute env a addr ?w0 = (p, w1)"
    by (cases "estimate_compute env a addr ?w0")
  obtain p' w1' where f': "estimate_compute env a addr ?w0' = (p', w1')"
    by (cases "estimate_compute env a addr ?w0'")
  from o f f' have "p' = p" by simp
  with assms f f' show ?thesis
    by (cases p) (auto simp: estimateGasLimitAndStorage_def makeLRUCache_def split: option.splits)
qed

lemma resolveNetworkInfo_estimateCache:
  "estimateCache (snd (resolveNetworkInfo env w a t)) = estimateCache w"
  by (simp add: resolveNetworkInfo_def Let_def split: option.splits promise.splits)

lemma resolveNetworkInfo_resolves:
  assumes "networkInfo t \<noteq> None \<or>
           (\<exists>ni. getAccountNetworkInfo env a = Resolved ni \<and> ni_family ni = ''tezos'')"
  shows "\<exists>ni. fst (resolveNetworkInfo env w a t) = Resolved ni"
  using assms by (auto simp: resolveNetworkInfo_def Let_def split: option.splits)

lemma resolveNetworkInfo_present:
  "networkInfo t = Some ni \<Longrightarrow> resolveNetworkInfo env w a t = (Resolved ni, w)"
  by (simp add: resolveNetworkInfo_def)

lemma resolveGasAndStorage_outcome:
  assumes "estimateCache w = estimateCache w'"
  shows "fst (resolveGasAndStorage env w a t) = fst (resolveGasAndStorage env w' a t)"
proof -
  let ?c = "CallValidateRecipient (currency a) (recipient t)"
  have "fst (estimateGasLimitAndStorage env (logCall ?c w) a (recipient t)) =
        fst (estimateGasLimitAndStorage env (logCall ?c w') a (recipient t))"
    using assms by (intro estimateGasLimitAndStorage_outcome) simp
  then show ?thesis
    by (auto simp: resolveGasAndStorage_def Let_def split: option.splits prod.splits promise.splits)
qed

lemma resolveGasAndStorage_failure:
  assumes "gasLimit t = None \<or> storageLimit t = None" and "recipient t \<noteq> []"
    and "recipientError (validateRecipient env (currency a) (recipient t)) = None"
    and "fst (estimateGasLimitAndStorage env w a (recipient t)) = Rejected e"
  shows "fst (resolveGasAndStorage env w a t) = Rejected e"
proof -
  let ?w1 = "logCall (CallValidateRecipient (currency a) (recipient t)) w"
  have "fst (estimateGasLimitAndStorage env ?w1 a (recipient t)) = Rejected e"
    using assms(4) estimateGasLimitAndStorage_outcome[of ?w1 w env a "recipient t"] by simp
  with assms(1-3) show ?thesis
    by (auto simp: resolveGasAndStorage_def truthy_def Let_def split: prod.splits promise.splits)
qed

lemma prepareTransaction_after_networkInfo:
  assumes "resolveNetworkInfo env w a t = (Resolved ni, w1)"
  shows "(\<forall>e. fst (resolveGasAndStorage env w1 a t) = Rejected e \<longrightarrow>
            prepareTransaction env w a t = (Rejected e, snd (resolveGasAndStorage env w1 a t))) \<and>
         (\<forall>g s. fst (resolveGasAndStorage env w1 a t) = Resolved (g, s) \<longrightarrow>
            (\<exists>d. prepareTransaction env w a t = (Resolved d, snd (resolveGasAndStorage env w1 a t)) \<and>
                 gasLimit (deref d) = g \<and> storageLimit (deref d) = s \<and>
                 recipient (deref d) =
                   (if truthy_opt (subAccountId t) \<and> \<not> truthy (recipient t)
                    then freshAddress a else recipient t)))"
  using assms
  by (auto simp: prepareTransaction_def Let_def split: prod.splits promise.splits)

lemma truthy_opt_iff: "truthy_opt x = (\<exists>s. x = Some s \<and> s \<noteq> [])"
  by (cases x) (simp_all add: truthy_opt_def truthy_def)

lemma resolveGasAndStorage_empty_recipient:
  "recipient t = [] \<Longrightarrow> resolveGasAndStorage env w a t = (Resolved (gasLimit t, storageLimit t), w)"
  by (simp add: resolveGasAndStorage_def truthy_def)

lemma prepareTransaction_world:
  "snd (prepareTransaction env w a t) =
     (case resolveNetworkInfo env w a t of
        (Rejected e, w1) \<Rightarrow> w1
      | (Resolved ni, w1) \<Rightarrow> snd (resolveGasAndStorage env w1 a t))"
  by (simp add: prepareTransaction_def Let_def split: prod.splits promise.splits)

lemma resolveNetworkInfo_cases:
  "resolveNetworkInfo env w a t =
     (case networkInfo t of
        Some ni \<Rightarrow> (Resolved ni, w)
      | None \<Rightarrow>
          (case getAccountNetworkInfo env a of
             Rejected e \<Rightarrow> (Rejected e, logCall (CallGetAccountNetworkInfo (acc_id a)) w)
           | Resolved ni \<Rightarrow>
               (if ni_family ni = ''tezos''
                then (Resolved ni, logCall (CallGetAccountNetworkInfo (acc_id a)) w)
                else (Rejected InvariantViolation,
                      logCall (CallGetAccountNetworkInfo (acc_id a)) w))))"
  by (simp add: resolveNetworkInfo_def Let_def split: option.splits promise.splits)

lemma resolveNetworkInfo_ok:
  assumes "networkInfo t \<noteq> None \<or>
           (\<exists>ni. getAccountNetworkInfo env a = Resolved ni \<and> ni_family ni = ''tezos'')"
  shows "\<exists>ni. resolveNetworkInfo env w a t =
           (Resolved ni,
            if networkInfo t = None then logCall (CallGetAccountNetworkInfo (acc_id a)) w else w)"
  using assms by (auto simp: resolveNetworkInfo_cases split: option.splits)

lemma resolveGasAndStorage_invalid_world:
  assumes "gasLimit t = None \<or> storageLimit t = None" and "recipient t \<noteq> []"
    and "recipientError (validateRecipient env (currency a) (recipient t)) \<noteq> None"
  shows "resolveGasAndStorage env w a t =
           (Resolved (gasLimit t, storageLimit t),
            logCall (CallValidateRecipient (currency a) (recipient t)) w)"
  using assms by (auto simp: resolveGasAndStorage_def truthy_def Let_def)

lemma resolveGasAndStorage_rejected_iff:
  "fst (resolveGasAndStorage env w a t) = Rejected e \<Longrightarrow>
   (gasLimit t = None \<or> storageLimit t = None) \<and> recipient t \<noteq> [] \<and>
   recipientError (validateRecipient env (currency a) (recipient t)) = None"
  by (auto simp: resolveGasAndStorage_def truthy_def Let_def
      split: if_splits option.splits prod.splits promise.splits)

lemma prepareTransaction_rejected_cases:
  assumes "fst (prepareTransaction env w a t) = Rejected e"
  shows "fst (resolveNetworkInfo env w a t) = Rejected e \<or>
         (\<exists>ni. fst (resolveNetworkInfo env w a t) = Resolved ni \<and>
               fst (resolveGasAndStorage env (snd (resolveNetworkInfo env w a t)) a t) = Rejected e)"
  using assms
  by (auto simp: prepareTransaction_def Let_def split: prod.splits promise.splits if_splits)

lemma prepareTransaction_resolved_recipient:
  assumes "prepareTransaction env w a t = (Resolved d, w')"
  shows "recipient (deref d) =
           (if truthy_opt (subAccountId t) \<and> \<not> truthy (recipient t)
            then freshAddress a else recipient t)"
  using assms
  by (auto simp: prepareTransaction_def Let_def split: prod.splits promise.splits if_splits)

subsection \<open>The sub-account lookup\<close>

lemma findSubAccount_dangling:
  assumes "subAccountId t = Some s"
    and "\<forall>sas. subAccounts a = Some sas \<longrightarrow> s \<notin> sub_id ` set sas"
  shows "findSubAccount a t = None"
proof (cases "subAccounts a")
  case None
  then show ?thesis by (simp add: findSubAccount_def)
next
  case (Some sas)
  with assms have "\<not> (\<exists>ta \<in> set sas. Some (sub_id ta) = subAccountId t)" by auto
  then have "List.find (\<lambda>ta. Some (sub_id ta) = subAccountId t) sas = None"
    by (simp add: find_None_iff)
  with Some show ?thesis by (simp add: findSubAccount_def)
qed

subsection \<open>The decimal printer is injective\<close>

lemma digitChar_code: "d < 10 \<Longrightarrow> (of_char (digitChar d) :: nat) = 48 + d"
  by (simp add: digitChar_def)

lemma digitChar_inj:
  assumes "a < 10" and "b < 10" and "digitChar a = digitChar b"
  shows "a = b"
proof -
  have "(of_char (digitChar a) :: nat) = of_char (digitChar b)"
    by (simp only: assms(3))
  then have "48 + a = 48 + b"
    by (simp only: digitChar_code[OF assms(1)] digitChar_code[OF assms(2)])
  then show ?thesis by arith
qed

lemma digitChar_not_minus: "d < 10 \<Longrightarrow> digitChar d \<noteq> CHR ''-''"
proof
  assume "d < 10" and "digitChar d = CHR ''-''"
  then have "(of_char (CHR ''-'') :: nat) = 48 + d"
    using digitChar_code[of d] by (simp only:)
  moreover have "(of_char (CHR ''-'') :: nat) = 45" by simp
  ultimately show False by arith
qed

lemma natDigits_nonempty: "natDigits n \<noteq> []"
  by (subst natDigits.simps) simp

lemma natDigits_inj: "natDigits n = natDigits m \<Longrightarrow> n = m"
proof (induction n arbitrary: m rule: natDigits.induct)
  case (1 n)
  show ?case
  proof (cases "n < 10")
    case True
    show ?thesis
    proof (cases "m < 10")
      case True
      with \<open>n < 10\<close> "1.prems" show ?thesis
        by (simp add: natDigits.simps[of n] natDigits.simps[of m] digitChar_inj)
    next
      case False
      with \<open>n < 10\<close> "1.prems" natDigits_nonempty[of "m div 10"] show ?thesis
        by (simp add: natDigits.simps[of n] natDigits.simps[of m])
    qed
  next
    case False
    show ?thesis
    proof (cases "m < 10")
      case True
      with \<open>\<not> n < 10\<close> "1.prems" natDigits_nonempty[of "n div 10"] show ?thesis
        by (simp add: natDigits.simps[of n] natDigits.simps[of m])
    next
      case mf: False
      from False mf "1.prems" have eq: "natDigits (n div 10) = natDigits (m div 10)"
        and d: "digitChar (n mod 10) = digitChar (m mod 10)"
        by (simp_all add: natDigits.simps[of n] natDigits.simps[of m])
      from "1.IH"[OF False eq] have "n div 10 = m div 10" .
      moreover from d have "n mod 10 = m mod 10"
        by (intro digitChar_inj) simp_all
      ultimately show ?thesis
        by (metis div_mult_mod_eq)
    qed
  qed
qed

lemma natDigits_hd: "hd (natDigits n) \<noteq> CHR ''-''"
proof (induction n rule: natDigits.induct)
  case (1 n)
  show ?case
  proof (cases "n < 10")
    case True
    then show ?thesis by (simp add: natDigits.simps[of n] digitChar_not_minus)
  next
    case False
    with 1 natDigits_nonempty[of "n div 10"] show ?thesis
      by (simp add: natDigits.simps[of n])
  qed
qed

lemma decimal_nonempty: "decimal i \<noteq> []"
  by (simp add: decimal_def natDigits_nonempty)

lemma decimal_inj: "inj decimal"
proof (rule injI)
  fix x y :: int
  assume eq: "decimal x = decimal y"
  show "x = y"
  proof (cases "x < 0"; cases "y < 0")
    assume "x < 0" "y < 0"
    with eq have "nat (- x) = nat (- y)" by (simp add: decimal_def natDigits_inj)
    with \<open>x < 0\<close> \<open>y < 0\<close> show ?thesis by simp
  next
    assume "x < 0" "\<not> y < 0"
    with eq have "hd (natDigits (nat y)) = CHR ''-''" by (auto simp: decimal_def dest: arg_cong[where f = hd])
    with natDigits_hd show ?thesis by blast
  next
    assume "\<not> x < 0" "y < 0"
    with eq have "hd (natDigits (nat x)) = CHR ''-''" by (auto simp: decimal_def dest: arg_cong[where f = hd])
    with natDigits_hd show ?thesis by blast
  next
    assume "\<not> x < 0" "\<not> y < 0"
    with eq have "nat x = nat y" by (simp add: decimal_def natDigits_inj)
    with \<open>\<not> x < 0\<close> \<open>\<not> y < 0\<close> show ?thesis by simp
  qed
qed

subsection \<open>Cache keys\<close>

lemma bnOrEmpty_inj:
  assumes "inj (bnToString env)" and "\<forall>b. bnToString env b \<noteq> []"
  shows "bnOrEmpty env x = bnOrEmpty env y \<Longrightarrow> x = y"
  using assms by (cases x; cases y) (auto simp: bnOrEmpty_def dest: injD sym)

lemma map_of_filter_None: "map_of xs k = None \<Longrightarrow> map_of (filter P xs) k = None"
  by (induction xs) (auto split: if_splits)

lemma map_of_take_None: "map_of xs k = None \<Longrightarrow> map_of (take n xs) k = None"
proof -
  assume "map_of xs k = None"
  then have "k \<notin> fst ` set xs" by (simp add: map_of_eq_None_iff)
  moreover have "set (take n xs) \<subseteq> set xs" by (rule set_take_subset)
  ultimately have "k \<notin> fst ` set (take n xs)" by blast
  then show ?thesis by (simp add: map_of_eq_None_iff)
qed

lemma calculateFees_compute_feesCache:
  "feesCache (snd (calculateFees_compute env a t w)) = feesCache w"
  by (simp add: calculateFees_compute_def Let_def split: option.splits)

lemma calculateFees_other_key_miss:
  assumes "k \<noteq> calculateFees_key env a t" and "map_of (feesCache w) k = None"
  shows "map_of (feesCache (snd (calculateFees env w a t))) k = None"
proof -
  let ?w0 = "logCall (CallCalculateFees (calculateFees_key env a t)) w"
  obtain p w' where f: "calculateFees_compute env a t ?w0 = (p, w')"
    by (cases "calculateFees_compute env a t ?w0")
  then have "feesCache w' = feesCache w"
    using calculateFees_compute_feesCache[of env a t ?w0] by simp
  with assms f show ?thesis
    by (cases p)
      (auto simp: calculateFees_def makeLRUCache_def map_of_filter_None map_of_take_None
        split: option.splits)
qed

lemma calculateFees_compute_outcome:
  "fst (calculateFees_compute env a t w) =
     (case recipientError (validateRecipient env (currency a) (recipient t)) of
        Some e \<Rightarrow> Rejected e
      | None \<Rightarrow> getFeesForTransaction env a t)"
  by (simp add: calculateFees_compute_def Let_def split: option.splits)

lemma calculateFees_compute_calls:
  "calls (snd (calculateFees_compute env a t w)) =
     calls w @ CallValidateRecipient (currency a) (recipient t) #
       (case recipientError (validateRecipient env (currency a) (recipient t)) of
          Some e \<Rightarrow> []
        | None \<Rightarrow> [CallGetFeesForTransaction (acc_id a)])"
  by (simp add: calculateFees_compute_def Let_def split: option.splits)

lemma calculateFees_miss:
  assumes "map_of (feesCache w) (calculateFees_key env a t) = None"
  shows "fst (calculateFees env w a t) =
           (case recipientError (validateRecipient env (currency a) (recipient t)) of
              Some e \<Rightarrow> Rejected e
            | None \<Rightarrow> getFeesForTransaction env a t) \<and>
         calls (snd (calculateFees env w a t)) =
           calls w @ CallCalculateFees (calculateFees_key env a t) #
             CallValidateRecipient (currency a) (recipient t) #
             (case recipientError (validateRecipient env (currency a) (recipient t)) of
                Some e \<Rightarrow> []
              | None \<Rightarrow> [CallGetFeesForTransaction (acc_id a)])"
proof -
  let ?w0 = "logCall (CallCalculateFees (calculateFees_key env a t)) w"
  obtain p w1 where f: "calculateFees_compute env a t ?w0 = (p, w1)"
    by (cases "calculateFees_compute env a t ?w0")
  from f calculateFees_compute_outcome[of env a t ?w0]
  have p: "p = (case recipientError (validateRecipient env (currency a) (recipient t)) of
              Some e \<Rightarrow> Rejected e
            | None \<Rightarrow> getFeesForTransaction env a t)" by simp
  from f calculateFees_compute_calls[of env a t ?w0]
  have c: "calls w1 = calls w @ CallCalculateFees (calculateFees_key env a t) #
             CallValidateRecipient (currency a) (recipient t) #
             (case recipientError (validateRecipient env (currency a) (recipient t)) of
                Some e \<Rightarrow> []
              | None \<Rightarrow> [CallGetFeesForTransaction (acc_id a)])" by simp
  have "fst (calculateFees env w a t) = p \<and> calls (snd (calculateFees env w a t)) = calls w1"
    using assms f by (cases p) (simp_all add: calculateFees_def makeLRUCache_def)
  with p c show ?thesis by simp
qed

subsection \<open>The fields of a status\<close>

text \<open>\<open>getTransactionStatus\<close> always resolves; each field of the status is determined by
  the estimated fees and the errors that \<open>estimateFees\<close> returns.\<close>

lemma getTransactionStatus_fields:
  obtains r w' es w1 where
    "getTransactionStatus env w a t = (Resolved r, w')"
    "estimateFees env w a t = ((estimatedFees r, es), w1)"
    "w' = logCall (CallValidateRecipient (currency a) (recipient t)) w1"
    "totalSpent r =
       (if useAllAmount t then accountBalance a t else amount t + estimatedFees r)"
    "st_amount r =
       (if useAllAmount t then accountBalance a t - estimatedFees r else amount t)"
    "warn_feeTooHigh (warnings r) =
       (if st_amount r > 0 \<and> estimatedFees r * 10 > st_amount r then Some FeeTooHigh else None)"
    "err_fees (errors r) = err_fees es"
    "err_amount (errors r) = err_amount es"
    "err_transaction (errors r) = err_transaction es"
    "err_recipient (errors r) =
       (case recipientError (validateRecipient env (currency a) (recipient t)) of
          Some e \<Rightarrow> Some e | None \<Rightarrow> err_recipient es)"
    "recipientIsReadOnly r = truthy_opt (subAccountId t)"
proof -
  obtain ef es w1 where e: "estimateFees env w a t = ((ef, es), w1)"
    by (metis prod.exhaust)
  obtain r w' where g: "getTransactionStatus env w a t = (Resolved r, w')"
    by (simp add: getTransactionStatus_def e Let_def)
  from g e have
    "estimateFees env w a t = ((estimatedFees r, es), w1)"
    "w' = logCall (CallValidateRecipient (currency a) (recipient t)) w1"
    "totalSpent r =
       (if useAllAmount t then accountBalance a t else amount t + estimatedFees r)"
    "st_amount r =
       (if useAllAmount t then accountBalance a t - estimatedFees r else amount t)"
    "warn_feeTooHigh (warnings r) =
       (if st_amount r > 0 \<and> estimatedFees r * 10 > st_amount r then Some FeeTooHigh else None)"
    "err_fees (errors r) = err_fees es"
    "err_amount (errors r) = err_amount es"
    "err_transaction (errors r) = err_transaction es"
    "err_recipient (errors r) =
       (case recipientError (validateRecipient env (currency a) (recipient t)) of
          Some e \<Rightarrow> Some e | None \<Rightarrow> err_recipient es)"
    "recipientIsReadOnly r = truthy_opt (subAccountId t)"
    by (auto simp: getTransactionStatus_def Let_def noWarnings_def split: option.splits)
  with g that show thesis by blast
qed

subsection \<open>Evaluating the model on the examples\<close>

lemmas example_defs =
  exampleEnv_def exampleValidate_def examplePricing_def emptyWorld_def exampleAccount_def
  createTransaction_def RecipientRequired_def InvalidAddress_def NotEnoughBalance_def
  LibcoreFailure_def

lemmas model_defs =
  prepareTransaction_def resolveNetworkInfo_def resolveGasAndStorage_def
  estimateGasLimitAndStorage_def estimate_compute_def estimate_key_def makeLRUCache_def
  getTransactionStatus_def estimateFees_def calculateFees_def calculateFees_compute_def
  accountBalance_def findSubAccount_def truthy_def truthy_opt_def logCall_def Let_def
  noErrors_def noWarnings_def FeeNotLoaded_def FeeTooHigh_def InvariantViolation_def

text \<open>Two calls of \<open>prepareTransaction\<close> take a fresh draft with a valid recipient to a
  fixed point: the first returns a new draft, the second returns its argument.\<close>

lemma prepare_sendDraft:
  "fst (prepareTransaction exampleEnv emptyWorld exampleAccount sendDraft) =
     Resolved (FreshCopy preparedDraft)"
  by (simp add: example_defs sendDraft_def preparedDraft_def model_defs)

subsection \<open>prepareTransaction at a fixed point\<close>

text \<open>
  Claim C1. For every account \<open>a\<close> and draft \<open>t\<close> whose \<open>networkInfo\<close>, \<open>fees\<close>, \<open>gasLimit\<close>
  and \<open>storageLimit\<close> are all present, and which is not a sub-account draft with an empty
  recipient, \<open>prepareTransaction\<close> resolves with the very draft it was given (the
  \<^verbatim>\<open>return t\<close> of line 177, hence a value equal to \<open>t\<close>), whatever the collaborators would
  answer, and leaves the caches and the log of calls as they were.
\<close>

theorem prepareTransaction_fixed_point:
  assumes "networkInfo t \<noteq> None" and "fees t \<noteq> None" and "gasLimit t \<noteq> None"
    and "storageLimit t \<noteq> None"
    and "\<not> ((\<exists>s. subAccountId t = Some s \<and> s \<noteq> []) \<and> recipient t = [])"
  shows "prepareTransaction env w a t = (Resolved (SameRef t), w)"
  using assms
  by (auto simp: prepareTransaction_def resolveNetworkInfo_def resolveGasAndStorage_def
      truthy_def truthy_opt_def Let_def split: option.splits)

theorem prepareTransaction_fixed_point_witness:
  "networkInfo preparedDraft \<noteq> None \<and> fees preparedDraft \<noteq> None \<and>
   gasLimit preparedDraft \<noteq> None \<and> storageLimit preparedDraft \<noteq> None \<and>
   \<not> ((\<exists>s. subAccountId preparedDraft = Some s \<and> s \<noteq> []) \<and> recipient preparedDraft = []) \<and>
   prepareTransaction exampleEnv emptyWorld exampleAccount preparedDraft =
     (Resolved (SameRef preparedDraft), emptyWorld)"
  using prepareTransaction_fixed_point[of preparedDraft exampleEnv emptyWorld exampleAccount]
  by (simp add: preparedDraft_def sendDraft_def createTransaction_def)

subsection \<open>The totals of a status\<close>

text \<open>The balance behind \<^verbatim>\<open>account.balance\<close>: the parent's for a draft without a
  sub-account identifier, the sub-account's when the identifier names one.\<close>

lemma accountBalance_parent:
  "subAccountId t = None \<Longrightarrow> accountBalance a t = balance a"
  by (simp add: accountBalance_def findSubAccount_def truthy_opt_def)

lemma accountBalance_subAccount:
  assumes "subAccountId t = Some s" and "s \<noteq> []" and "subAccounts a = Some sas"
    and "List.find (\<lambda>ta. sub_id ta = s) sas = Some subAcc"
  shows "accountBalance a t = sub_balance subAcc"
  using assms by (simp add: accountBalance_def findSubAccount_def truthy_opt_def truthy_def)

text \<open>
  Claim C2. For every account and draft, \<open>getTransactionStatus\<close> resolves with a status in
  which, when \<open>useAllAmount\<close> is false, \<open>totalSpent\<close> is the draft's amount plus the
  estimated fees and the final amount is the draft's amount; and, when \<open>useAllAmount\<close> is
  true, \<open>totalSpent\<close> is the balance \<open>B\<close> of the resolved account and the final amount is
  \<open>B\<close> minus the estimated fees.
\<close>

theorem status_totals:
  "\<exists>r w'. getTransactionStatus env w a t = (Resolved r, w') \<and>
     (if useAllAmount t
      then totalSpent r = accountBalance a t \<and>
           st_amount r = accountBalance a t - estimatedFees r
      else totalSpent r = amount t + estimatedFees r \<and> st_amount r = amount t)"
  by (simp add: getTransactionStatus_def Let_def split: prod.splits)

theorem status_totals_witness:
  "useAllAmount allBalanceDraft \<and>
   (\<exists>r w'. getTransactionStatus exampleEnv emptyWorld exampleAccount allBalanceDraft =
             (Resolved r, w') \<and>
           totalSpent r = 700 \<and> st_amount r = 700 - estimatedFees r)"
proof -
  have u: "useAllAmount allBalanceDraft"
    by (simp add: allBalanceDraft_def createTransaction_def)
  have b: "accountBalance exampleAccount allBalanceDraft = 700"
    by (simp add: example_defs allBalanceDraft_def model_defs)
  from status_totals[of exampleEnv emptyWorld exampleAccount allBalanceDraft] u b
  show ?thesis by simp
qed

subsection \<open>The fee-too-high warning\<close>

text \<open>
  Claim C4. In the status, the \<open>feeTooHigh\<close> warning is present if and only if the final
  amount is strictly greater than 0 and ten times the estimated fees is strictly greater
  than the final amount; in particular, when ten times the estimated fees equals the
  final amount, no warning is recorded.
\<close>

theorem status_feeTooHigh:
  "\<exists>r w'. getTransactionStatus env w a t = (Resolved r, w') \<and>
     warn_feeTooHigh (warnings r) =
       (if st_amount r > 0 \<and> estimatedFees r * 10 > st_amount r then Some FeeTooHigh else None) \<and>
     (estimatedFees r * 10 = st_amount r \<longrightarrow> warn_feeTooHigh (warnings r) = None)"
proof -
  obtain r w' es w1 where g: "getTransactionStatus env w a t = (Resolved r, w')"
    and f: "warn_feeTooHigh (warnings r) =
       (if st_amount r > 0 \<and> estimatedFees r * 10 > st_amount r then Some FeeTooHigh else None)"
    by (rule getTransactionStatus_fields)
  from f have "estimatedFees r * 10 = st_amount r \<longrightarrow> warn_feeTooHigh (warnings r) = None"
    by simp
  with g f show ?thesis by blast
qed

text \<open>The examples of the specification: an amount of 100 with estimated fees of 11, 10
  and 9.\<close>

lemma status_feeDraft:
  assumes "0 \<le> f" and "f \<le> 4900"
  shows "fst (getTransactionStatus exampleEnv emptyWorld exampleAccount (feeDraft f)) =
     Resolved \<lparr>errors = noErrors,
       warnings = (if 10 < f then noWarnings\<lparr>warn_feeTooHigh := Some FeeTooHigh\<rparr> else noWarnings),
       estimatedFees = f, st_amount = 100, totalSpent = 100 + f, recipientIsReadOnly = False\<rparr>"
  using assms by (simp add: example_defs feeDraft_def model_defs)

lemma status_feeDraft_examples:
  "warn_feeTooHigh (warnings (case fst (getTransactionStatus exampleEnv emptyWorld exampleAccount
      (feeDraft 11)) of Resolved r \<Rightarrow> r)) = Some FeeTooHigh"
  "warn_feeTooHigh (warnings (case fst (getTransactionStatus exampleEnv emptyWorld exampleAccount
      (feeDraft 10)) of Resolved r \<Rightarrow> r)) = None"
  "warn_feeTooHigh (warnings (case fst (getTransactionStatus exampleEnv emptyWorld exampleAccount
      (feeDraft 9)) of Resolved r \<Rightarrow> r)) = None"
  by (simp_all add: status_feeDraft noWarnings_def)

theorem status_feeTooHigh_witness:
  "\<exists>r w'. getTransactionStatus exampleEnv emptyWorld exampleAccount (feeDraft 10) =
            (Resolved r, w') \<and>
     estimatedFees r * 10 = st_amount r \<and> warn_feeTooHigh (warnings r) = None"
proof -
  obtain r w' where
    g: "getTransactionStatus exampleEnv emptyWorld exampleAccount (feeDraft 10) = (Resolved r, w')"
    and b: "estimatedFees r * 10 = st_amount r \<longrightarrow> warn_feeTooHigh (warnings r) = None"
    using status_feeTooHigh[of exampleEnv emptyWorld exampleAccount "feeDraft 10"] by blast
  have "fst (getTransactionStatus exampleEnv emptyWorld exampleAccount (feeDraft 10)) =
     Resolved \<lparr>errors = noErrors, warnings = noWarnings, estimatedFees = 10, st_amount = 100,
       totalSpent = 110, recipientIsReadOnly = False\<rparr>"
    by (simp add: status_feeDraft)
  with g have "estimatedFees r * 10 = st_amount r" by simp
  with g b show ?thesis by simp
qed

subsection \<open>Fees that are not loaded\<close>

text \<open>
  Claim C5. For every account and every draft whose \<open>fees\<close> field is null,
  \<open>getTransactionStatus\<close> resolves with a status whose \<open>errors.fees\<close> is the
  fees-not-loaded error; the Fee Calculator is not invoked (the only call made is the one
  to the recipient validator, and the caches are untouched); and the estimated fees are 0,
  so that \<open>totalSpent\<close> and the final amount are the draft's amount, or the balance of the
  resolved account in all-balance mode.
\<close>

theorem status_fees_not_loaded:
  assumes "fees t = None"
  shows "\<exists>r. getTransactionStatus env w a t =
                (Resolved r, logCall (CallValidateRecipient (currency a) (recipient t)) w) \<and>
              err_fees (errors r) = Some FeeNotLoaded \<and>
              estimatedFees r = 0 \<and>
              totalSpent r = (if useAllAmount t then accountBalance a t else amount t) \<and>
              st_amount r = (if useAllAmount t then accountBalance a t else amount t)"
  using assms
  by (simp add: getTransactionStatus_def estimateFees_def Let_def noErrors_def
      split: prod.splits option.splits)

theorem status_fees_not_loaded_witness:
  "fees sendDraft = None \<and>
   (\<exists>r. getTransactionStatus exampleEnv emptyWorld exampleAccount sendDraft =
           (Resolved r, emptyWorld\<lparr>calls := [CallValidateRecipient ''tezos'' ''tz1abc'']\<rparr>) \<and>
         err_fees (errors r) = Some FeeNotLoaded \<and> estimatedFees r = 0 \<and>
         totalSpent r = 0 \<and> st_amount r = 0)"
proof -
  have h: "fees sendDraft = None"
    by (simp add: sendDraft_def createTransaction_def)
  from status_fees_not_loaded[OF h, of exampleEnv emptyWorld exampleAccount] h
  show ?thesis
    by (simp add: sendDraft_def createTransaction_def exampleAccount_def emptyWorld_def logCall_def)
qed

subsection \<open>A failing Fee Calculator\<close>

text \<open>
  Claim C6. When the draft's fees are present and the Fee Calculator fails with an error
  \<open>e\<close>, \<open>getTransactionStatus\<close> still resolves with a complete status: \<open>e\<close> is recorded
  under \<open>errors.amount\<close> (and not under \<open>errors.transaction\<close>) when its name is
  \<open>NotEnoughBalance\<close>, and under \<open>errors.transaction\<close> (and not under \<open>errors.amount\<close>)
  otherwise; the estimated fees are 0, the totals are computed from them, \<open>errors.fees\<close>
  is unset, no fee-too-high warning is recorded and \<open>errors.recipient\<close> is what the
  validator reports.
\<close>

theorem status_fee_calculator_failure:
  assumes "fees t \<noteq> None" and "fst (calculateFees env w a t) = Rejected e"
  shows "\<exists>r w'. getTransactionStatus env w a t = (Resolved r, w') \<and>
     (if name e = ''NotEnoughBalance''
      then err_amount (errors r) = Some e \<and> err_transaction (errors r) = None
      else err_transaction (errors r) = Some e \<and> err_amount (errors r) = None) \<and>
     err_fees (errors r) = None \<and>
     err_recipient (errors r) = recipientError (validateRecipient env (currency a) (recipient t)) \<and>
     warn_feeTooHigh (warnings r) = None \<and>
     estimatedFees r = 0 \<and>
     totalSpent r = (if useAllAmount t then accountBalance a t else amount t) \<and>
     st_amount r = (if useAllAmount t then accountBalance a t else amount t) \<and>
     recipientIsReadOnly r = truthy_opt (subAccountId t)"
proof -
  obtain w1 where c: "calculateFees env w a t = (Rejected e, w1)"
    using assms(2) by (cases "calculateFees env w a t") simp
  obtain f where f: "fees t = Some f" using assms(1) by blast
  have ef: "estimateFees env w a t =
      ((0, if name e = ''NotEnoughBalance'' then noErrors\<lparr>err_amount := Some e\<rparr>
           else noErrors\<lparr>err_transaction := Some e\<rparr>), w1)"
    using c f by (simp add: estimateFees_def)
  show ?thesis
    by (simp add: getTransactionStatus_def ef Let_def noErrors_def noWarnings_def
        split: option.splits)
qed

theorem status_fee_calculator_failure_witness:
  "(fees overdraftDraft \<noteq> None \<and>
    fst (calculateFees exampleEnv emptyWorld exampleAccount overdraftDraft) =
      Rejected NotEnoughBalance \<and>
    (\<exists>r w'. getTransactionStatus exampleEnv emptyWorld exampleAccount overdraftDraft =
              (Resolved r, w') \<and>
            err_amount (errors r) = Some NotEnoughBalance \<and> err_transaction (errors r) = None \<and>
            estimatedFees r = 0 \<and> totalSpent r = 5000 \<and> st_amount r = 5000)) \<and>
   (fees overdraftDraft \<noteq> None \<and>
    fst (calculateFees brokenPricingEnv emptyWorld exampleAccount overdraftDraft) =
      Rejected LibcoreFailure \<and>
    (\<exists>r w'. getTransactionStatus brokenPricingEnv emptyWorld exampleAccount overdraftDraft =
              (Resolved r, w') \<and>
            err_transaction (errors r) = Some LibcoreFailure \<and> err_amount (errors r) = None \<and>
            estimatedFees r = 0 \<and> totalSpent r = 5000 \<and> st_amount r = 5000))"
proof -
  have h: "fees overdraftDraft \<noteq> None"
    by (simp add: overdraftDraft_def createTransaction_def)
  have c1: "fst (calculateFees exampleEnv emptyWorld exampleAccount overdraftDraft) =
      Rejected NotEnoughBalance"
    by (simp add: example_defs overdraftDraft_def brokenPricingEnv_def model_defs)
  have c2: "fst (calculateFees brokenPricingEnv emptyWorld exampleAccount overdraftDraft) =
      Rejected LibcoreFailure"
    by (simp add: example_defs overdraftDraft_def brokenPricingEnv_def model_defs)
  have n: "name NotEnoughBalance = ''NotEnoughBalance''"
    "name LibcoreFailure \<noteq> ''NotEnoughBalance''"
    "\<not> useAllAmount overdraftDraft" "amount overdraftDraft = 5000"
    by (simp_all add: example_defs overdraftDraft_def brokenPricingEnv_def)
  from status_fee_calculator_failure[OF h c1] status_fee_calculator_failure[OF h c2] h c1 c2 n
  show ?thesis by auto
qed

subsection \<open>A sub-account identifier that names no sub-account\<close>

text \<open>
  Claim C10. If the draft's \<open>subAccountId\<close> is set but the account has no sub-account
  with that identifier (or no sub-accounts at all), \<open>getTransactionStatus\<close> falls back to
  the parent account: in all-balance mode \<open>totalSpent\<close> is the parent's balance and the
  final amount is the parent's balance minus the estimated fees, \<open>recipientIsReadOnly\<close> is
  still true, and no error is recorded for the missing sub-account: \<open>errors.fees\<close> is set
  only for missing fees, \<open>errors.recipient\<close> is what the validator reports, and
  \<open>errors.amount\<close> and \<open>errors.transaction\<close> hold nothing but a failure of the Fee
  Calculator.
\<close>

theorem status_dangling_subAccount:
  assumes "subAccountId t = Some s" and "s \<noteq> []"
    and "\<forall>sas. subAccounts a = Some sas \<longrightarrow> s \<notin> sub_id ` set sas"
  shows "\<exists>r w'. getTransactionStatus env w a t = (Resolved r, w') \<and>
     (useAllAmount t \<longrightarrow>
        totalSpent r = balance a \<and> st_amount r = balance a - estimatedFees r) \<and>
     recipientIsReadOnly r \<and>
     err_fees (errors r) = (if fees t = None then Some FeeNotLoaded else None) \<and>
     err_recipient (errors r) = recipientError (validateRecipient env (currency a) (recipient t)) \<and>
     (\<forall>e. err_amount (errors r) = Some e \<or> err_transaction (errors r) = Some e \<longrightarrow>
          fees t \<noteq> None \<and> fst (calculateFees env w a t) = Rejected e)"
proof -
  have b: "accountBalance a t = balance a"
    using findSubAccount_dangling[OF assms(1) assms(3)] by (simp add: accountBalance_def)
  have ro: "truthy_opt (subAccountId t)"
    using assms(1,2) by (simp add: truthy_opt_def truthy_def)
  show ?thesis
    by (auto simp: getTransactionStatus_def estimateFees_def Let_def noErrors_def b ro
        split: option.splits prod.splits promise.splits)
qed

theorem status_dangling_subAccount_witness:
  "subAccountId danglingDraft = Some ''tezos:1+gone'' \<and> ''tezos:1+gone'' \<noteq> [] \<and>
   subAccounts exampleAccount = Some [\<lparr>sub_id = ''tezos:1+KT1'', sub_balance = 700\<rparr>] \<and>
   ''tezos:1+gone'' \<notin> sub_id ` set [\<lparr>sub_id = ''tezos:1+KT1'', sub_balance = 700\<rparr>] \<and>
   useAllAmount danglingDraft \<and>
   (\<exists>r w'. getTransactionStatus exampleEnv emptyWorld exampleAccount danglingDraft =
             (Resolved r, w') \<and>
           totalSpent r = 5000 \<and> st_amount r = 5000 - estimatedFees r \<and>
           recipientIsReadOnly r \<and> err_fees (errors r) = None \<and> err_recipient (errors r) = None)"
proof -
  have h1: "subAccountId danglingDraft = Some ''tezos:1+gone''"
    and h2: "''tezos:1+gone'' \<noteq> []"
    and s: "subAccounts exampleAccount = Some [\<lparr>sub_id = ''tezos:1+KT1'', sub_balance = 700\<rparr>]"
    and n: "''tezos:1+gone'' \<notin> sub_id ` set [\<lparr>sub_id = ''tezos:1+KT1'', sub_balance = 700\<rparr>]"
    and u: "useAllAmount danglingDraft"
    by (simp_all add: danglingDraft_def createTransaction_def exampleAccount_def)
  from s n have h3:
    "\<forall>sas. subAccounts exampleAccount = Some sas \<longrightarrow> ''tezos:1+gone'' \<notin> sub_id ` set sas"
    by simp
  have v: "fees danglingDraft \<noteq> None" "balance exampleAccount = 5000"
    "recipientError (validateRecipient exampleEnv (currency exampleAccount)
       (recipient danglingDraft)) = None"
    by (simp_all add: example_defs danglingDraft_def)
  from status_dangling_subAccount[OF h1 h2 h3, of exampleEnv emptyWorld] h1 h2 s n u v
  show ?thesis by auto
qed

subsection \<open>Failures during preparation\<close>

text \<open>
  Claim C3, as amended. \<open>prepareTransaction\<close> propagates the contract violation and the
  failures of its collaborators, and nothing else. With the draft's network info absent, a
  rejected fetch rejects the preparation with the same error, and a fetched family other
  than \<open>tezos\<close> rejects it with the assertion failure, in both cases right after the
  fetch. For a draft that lacks a gas limit or a storage limit and has a non-empty
  recipient, with network info present or fetched with the family \<open>tezos\<close>: if the
  recipient is valid and the Gas/Storage Estimator fails with \<open>e\<close>, the failure is not
  swallowed and the preparation is rejected with \<open>e\<close> (lines 154-156 have no handler);
  what is swallowed is an invalid recipient: if the validator reports a hard error, the
  estimator is not invoked (the only calls made are the fetch, when the network info was
  absent, and the validation; the caches are untouched), the preparation resolves, and
  the draft it returns has the \<open>gasLimit\<close> and \<open>storageLimit\<close> of \<open>t\<close>. Every rejection of
  \<open>prepareTransaction\<close> is one of these three: the fetch's, the assertion's or the
  estimator's.
\<close>

theorem prepareTransaction_estimation_failures:
  "(networkInfo t = None \<and> getAccountNetworkInfo env a = Rejected e \<longrightarrow>
      prepareTransaction env w a t =
        (Rejected e, logCall (CallGetAccountNetworkInfo (acc_id a)) w)) \<and>
   (networkInfo t = None \<and>
    (\<exists>ni. getAccountNetworkInfo env a = Resolved ni \<and> ni_family ni \<noteq> ''tezos'') \<longrightarrow>
      prepareTransaction env w a t =
        (Rejected InvariantViolation, logCall (CallGetAccountNetworkInfo (acc_id a)) w)) \<and>
   ((gasLimit t = None \<or> storageLimit t = None) \<and> recipient t \<noteq> [] \<and>
    (networkInfo t \<noteq> None \<or>
     (\<exists>ni. getAccountNetworkInfo env a = Resolved ni \<and> ni_family ni = ''tezos'')) \<and>
    recipientError (validateRecipient env (currency a) (recipient t)) \<noteq> None \<longrightarrow>
      (\<exists>d. prepareTransaction env w a t =
              (Resolved d,
               logCall (CallValidateRecipient (currency a) (recipient t))
                 (if networkInfo t = None
                  then logCall (CallGetAccountNetworkInfo (acc_id a)) w else w)) \<and>
            gasLimit (deref d) = gasLimit t \<and> storageLimit (deref d) = storageLimit t)) \<and>
   ((gasLimit t = None \<or> storageLimit t = None) \<and> recipient t \<noteq> [] \<and>
    (networkInfo t \<noteq> None \<or>
     (\<exists>ni. getAccountNetworkInfo env a = Resolved ni \<and> ni_family ni = ''tezos'')) \<and>
    recipientError (validateRecipient env (currency a) (recipient t)) = None \<and>
    fst (estimateGasLimitAndStorage env w a (recipient t)) = Rejected e \<longrightarrow>
      fst (prepareTransaction env w a t) = Rejected e) \<and>
   (fst (prepareTransaction env w a t) = Rejected e \<longrightarrow>
      (networkInfo t = None \<and> getAccountNetworkInfo env a = Rejected e) \<or>
      (networkInfo t = None \<and> e = InvariantViolation \<and>
       (\<exists>ni. getAccountNetworkInfo env a = Resolved ni \<and> ni_family ni \<noteq> ''tezos'')) \<or>
      ((gasLimit t = None \<or> storageLimit t = None) \<and> recipient t \<noteq> [] \<and>
       recipientError (validateRecipient env (currency a) (recipient t)) = None \<and>
       fst (estimateGasLimitAndStorage env w a (recipient t)) = Rejected e))"
proof (intro conjI impI)
  assume "networkInfo t = None \<and> getAccountNetworkInfo env a = Rejected e"
  then show "prepareTransaction env w a t =
        (Rejected e, logCall (CallGetAccountNetworkInfo (acc_id a)) w)"
    by (simp add: prepareTransaction_def resolveNetworkInfo_cases)
next
  assume "networkInfo t = None \<and>
    (\<exists>ni. getAccountNetworkInfo env a = Resolved ni \<and> ni_family ni \<noteq> ''tezos'')"
  then show "prepareTransaction env w a t =
        (Rejected InvariantViolation, logCall (CallGetAccountNetworkInfo (acc_id a)) w)"
    by (auto simp: prepareTransaction_def resolveNetworkInfo_cases)
next
  let ?w1 = "if networkInfo t = None then logCall (CallGetAccountNetworkInfo (acc_id a)) w else w"
  assume h: "(gasLimit t = None \<or> storageLimit t = None) \<and> recipient t \<noteq> [] \<and>
    (networkInfo t \<noteq> None \<or>
     (\<exists>ni. getAccountNetworkInfo env a = Resolved ni \<and> ni_family ni = ''tezos'')) \<and>
    recipientError (validateRecipient env (currency a) (recipient t)) \<noteq> None"
  then obtain ni where r: "resolveNetworkInfo env w a t = (Resolved ni, ?w1)"
    using resolveNetworkInfo_ok[of t env a w] by blast
  from h have g: "resolveGasAndStorage env ?w1 a t =
      (Resolved (gasLimit t, storageLimit t),
       logCall (CallValidateRecipient (currency a) (recipient t)) ?w1)"
    by (intro resolveGasAndStorage_invalid_world) simp_all
  from prepareTransaction_after_networkInfo[OF r] g
  show "\<exists>d. prepareTransaction env w a t =
              (Resolved d, logCall (CallValidateRecipient (currency a) (recipient t)) ?w1) \<and>
            gasLimit (deref d) = gasLimit t \<and> storageLimit (deref d) = storageLimit t"
    by auto
next
  assume h: "(gasLimit t = None \<or> storageLimit t = None) \<and> recipient t \<noteq> [] \<and>
    (networkInfo t \<noteq> None \<or>
     (\<exists>ni. getAccountNetworkInfo env a = Resolved ni \<and> ni_family ni = ''tezos'')) \<and>
    recipientError (validateRecipient env (currency a) (recipient t)) = None \<and>
    fst (estimateGasLimitAndStorage env w a (recipient t)) = Rejected e"
  then obtain ni where "fst (resolveNetworkInfo env w a t) = Resolved ni"
    using resolveNetworkInfo_resolves[of t env a w] by blast
  then obtain w1 where r: "resolveNetworkInfo env w a t = (Resolved ni, w1)"
    by (cases "resolveNetworkInfo env w a t") simp
  have c: "estimateCache w1 = estimateCache w"
    using resolveNetworkInfo_estimateCache[of env w a t] r by simp
  from h have "fst (estimateGasLimitAndStorage env w1 a (recipient t)) = Rejected e"
    using estimateGasLimitAndStorage_outcome[OF c, of env a "recipient t"] by simp
  with h have "fst (resolveGasAndStorage env w1 a t) = Rejected e"
    by (intro resolveGasAndStorage_failure) simp_all
  with prepareTransaction_after_networkInfo[OF r]
  show "fst (prepareTransaction env w a t) = Rejected e" by simp
next
  assume rej: "fst (prepareTransaction env w a t) = Rejected e"
  from prepareTransaction_rejected_cases[OF rej]
  show "(networkInfo t = None \<and> getAccountNetworkInfo env a = Rejected e) \<or>
      (networkInfo t = None \<and> e = InvariantViolation \<and>
       (\<exists>ni. getAccountNetworkInfo env a = Resolved ni \<and> ni_family ni \<noteq> ''tezos'')) \<or>
      ((gasLimit t = None \<or> storageLimit t = None) \<and> recipient t \<noteq> [] \<and>
       recipientError (validateRecipient env (currency a) (recipient t)) = None \<and>
       fst (estimateGasLimitAndStorage env w a (recipient t)) = Rejected e)"
  proof
    assume "fst (resolveNetworkInfo env w a t) = Rejected e"
    then show ?thesis
      by (auto simp: resolveNetworkInfo_cases split: option.splits promise.splits if_splits)
  next
    assume "\<exists>ni. fst (resolveNetworkInfo env w a t) = Resolved ni \<and>
               fst (resolveGasAndStorage env (snd (resolveNetworkInfo env w a t)) a t) = Rejected e"
    then have g: "fst (resolveGasAndStorage env (snd (resolveNetworkInfo env w a t)) a t) = Rejected e"
      by blast
    let ?w1 = "snd (resolveNetworkInfo env w a t)"
    have c: "estimateCache ?w1 = estimateCache w"
      by (rule resolveNetworkInfo_estimateCache)
    from resolveGasAndStorage_rejected[OF g]
    have "fst (estimateGasLimitAndStorage env w a (recipient t)) = Rejected e"
      using estimateGasLimitAndStorage_outcome[of
          "logCall (CallValidateRecipient (currency a) (recipient t)) ?w1" w env a "recipient t"] c
      by simp
    with resolveGasAndStorage_rejected_iff[OF g] show ?thesis by simp
  qed
qed

theorem prepareTransaction_estimation_failures_witness:
  "(networkInfo sendDraft = None \<and>
    getAccountNetworkInfo offlineEnv exampleAccount = Rejected NetworkDown \<and>
    prepareTransaction offlineEnv emptyWorld exampleAccount sendDraft =
      (Rejected NetworkDown, emptyWorld\<lparr>calls := [CallGetAccountNetworkInfo ''tezos:1'']\<rparr>)) \<and>
   ((\<exists>ni. getAccountNetworkInfo bitcoinEnv exampleAccount = Resolved ni \<and>
          ni_family ni \<noteq> ''tezos'') \<and>
    prepareTransaction bitcoinEnv emptyWorld exampleAccount sendDraft =
      (Rejected InvariantViolation,
       emptyWorld\<lparr>calls := [CallGetAccountNetworkInfo ''tezos:1'']\<rparr>)) \<and>
   (gasLimit bogusDraft = None \<and> recipient bogusDraft \<noteq> [] \<and> networkInfo bogusDraft = None \<and>
    (\<exists>ni. getAccountNetworkInfo exampleEnv exampleAccount = Resolved ni \<and>
          ni_family ni = ''tezos'') \<and>
    recipientError (validateRecipient exampleEnv (currency exampleAccount) (recipient bogusDraft))
      \<noteq> None \<and>
    (\<exists>d. prepareTransaction exampleEnv emptyWorld exampleAccount bogusDraft =
            (Resolved d,
             emptyWorld\<lparr>calls := [CallGetAccountNetworkInfo ''tezos:1'',
                                  CallValidateRecipient ''tezos'' ''bogus'']\<rparr>) \<and>
          gasLimit (deref d) = None \<and> storageLimit (deref d) = None)) \<and>
   (gasLimit sendDraft = None \<and> recipient sendDraft \<noteq> [] \<and>
    (\<exists>ni. getAccountNetworkInfo failingEstimateEnv exampleAccount = Resolved ni \<and>
          ni_family ni = ''tezos'') \<and>
    recipientError (validateRecipient failingEstimateEnv (currency exampleAccount)
      (recipient sendDraft)) = None \<and>
    fst (estimateGasLimitAndStorage failingEstimateEnv emptyWorld exampleAccount
      (recipient sendDraft)) = Rejected LibcoreFailure \<and>
    fst (prepareTransaction failingEstimateEnv emptyWorld exampleAccount sendDraft) =
      Rejected LibcoreFailure)"
proof -
  have o1: "networkInfo sendDraft = None"
    and o2: "getAccountNetworkInfo offlineEnv exampleAccount = Rejected NetworkDown"
    and o3: "\<exists>ni. getAccountNetworkInfo bitcoinEnv exampleAccount = Resolved ni \<and>
             ni_family ni \<noteq> ''tezos''"
    and lg: "logCall (CallGetAccountNetworkInfo (acc_id exampleAccount)) emptyWorld =
             emptyWorld\<lparr>calls := [CallGetAccountNetworkInfo ''tezos:1'']\<rparr>"
    by (simp_all add: example_defs sendDraft_def offlineEnv_def bitcoinEnv_def logCall_def)
  have a1: "gasLimit bogusDraft = None"
    and a2: "recipient bogusDraft \<noteq> []"
    and a3: "\<exists>ni. getAccountNetworkInfo exampleEnv exampleAccount = Resolved ni \<and>
             ni_family ni = ''tezos''"
    and a4: "recipientError (validateRecipient exampleEnv (currency exampleAccount)
       (recipient bogusDraft)) \<noteq> None"
    and a5: "storageLimit bogusDraft = None"
    and a6: "networkInfo bogusDraft = None"
    and a7: "logCall (CallValidateRecipient (currency exampleAccount) (recipient bogusDraft))
               (logCall (CallGetAccountNetworkInfo (acc_id exampleAccount)) emptyWorld) =
             emptyWorld\<lparr>calls := [CallGetAccountNetworkInfo ''tezos:1'',
                                  CallValidateRecipient ''tezos'' ''bogus'']\<rparr>"
    by (simp_all add: example_defs bogusDraft_def logCall_def)
  have b1: "gasLimit sendDraft = None"
    and b2: "recipient sendDraft \<noteq> []"
    and b3: "\<exists>ni. getAccountNetworkInfo failingEstimateEnv exampleAccount = Resolved ni \<and>
             ni_family ni = ''tezos''"
    and b4: "recipientError (validateRecipient failingEstimateEnv (currency exampleAccount)
       (recipient sendDraft)) = None"
    by (simp_all add: example_defs sendDraft_def failingEstimateEnv_def)
  have b5: "fst (estimateGasLimitAndStorage failingEstimateEnv emptyWorld exampleAccount
      (recipient sendDraft)) = Rejected LibcoreFailure"
    by (simp add: example_defs sendDraft_def failingEstimateEnv_def model_defs)
  from prepareTransaction_estimation_failures[of sendDraft offlineEnv exampleAccount NetworkDown
      emptyWorld] o1 o2 lg
  have c1: "prepareTransaction offlineEnv emptyWorld exampleAccount sendDraft =
      (Rejected NetworkDown, emptyWorld\<lparr>calls := [CallGetAccountNetworkInfo ''tezos:1'']\<rparr>)"
    by simp
  from prepareTransaction_estimation_failures[of sendDraft bitcoinEnv exampleAccount NetworkDown
      emptyWorld] o1 o3 lg
  have c2: "prepareTransaction bitcoinEnv emptyWorld exampleAccount sendDraft =
      (Rejected InvariantViolation,
       emptyWorld\<lparr>calls := [CallGetAccountNetworkInfo ''tezos:1'']\<rparr>)"
    by simp
  from prepareTransaction_estimation_failures[of bogusDraft exampleEnv exampleAccount NetworkDown
      emptyWorld] a1 a2 a3 a4 a5 a6 a7
  have c3: "\<exists>d. prepareTransaction exampleEnv emptyWorld exampleAccount bogusDraft =
            (Resolved d,
             emptyWorld\<lparr>calls := [CallGetAccountNetworkInfo ''tezos:1'',
                                  CallValidateRecipient ''tezos'' ''bogus'']\<rparr>) \<and>
          gasLimit (deref d) = None \<and> storageLimit (deref d) = None"
    by simp
  from prepareTransaction_estimation_failures[of sendDraft failingEstimateEnv exampleAccount
      LibcoreFailure emptyWorld] b1 b2 b3 b4 b5
  have c4: "fst (prepareTransaction failingEstimateEnv emptyWorld exampleAccount sendDraft) =
      Rejected LibcoreFailure"
    by simp
  from o1 o2 o3 a1 a2 a3 a4 a6 b1 b2 b3 b4 b5 c1 c2 c3 c4 show ?thesis
    by (intro conjI)
qed

text \<open>
  The claim as it was stated fails. With a valid recipient and a libcore that cannot
  compute the storage, the estimator is rejected and so is the preparation: no draft is
  returned.
\<close>

theorem prepareTransaction_estimator_failure_counterexample:
  "fst (estimateGasLimitAndStorage failingEstimateEnv emptyWorld exampleAccount
     (recipient sendDraft)) = Rejected LibcoreFailure \<and>
   fst (prepareTransaction failingEstimateEnv emptyWorld exampleAccount sendDraft) =
     Rejected LibcoreFailure"
  by (simp add: example_defs sendDraft_def failingEstimateEnv_def model_defs)

subsection \<open>The default recipient of a sub-account draft\<close>

text \<open>
  Claim C7. For every account \<open>a\<close> and draft with \<open>subAccountId\<close> set (a truthy value, as
  line 163 tests it) and an empty recipient, every draft that \<open>prepareTransaction\<close>
  returns has its recipient equal to \<open>a.freshAddress\<close>; and it does return one whenever
  the network info is present in the draft or is fetched with the family \<open>tezos\<close>. And
  \<open>getTransactionStatus\<close> always resolves, with \<open>recipientIsReadOnly\<close> true if and only
  if the draft carries a sub-account identifier.
\<close>

theorem subAccount_recipient_default:
  "(\<forall>d w'. (\<exists>s. subAccountId t = Some s \<and> s \<noteq> []) \<and> recipient t = [] \<and>
           prepareTransaction env w a t = (Resolved d, w') \<longrightarrow>
           recipient (deref d) = freshAddress a) \<and>
   ((\<exists>s. subAccountId t = Some s \<and> s \<noteq> []) \<and> recipient t = [] \<and>
    (networkInfo t \<noteq> None \<or>
     (\<exists>ni. getAccountNetworkInfo env a = Resolved ni \<and> ni_family ni = ''tezos'')) \<longrightarrow>
    (\<exists>d w'. prepareTransaction env w a t = (Resolved d, w') \<and>
            recipient (deref d) = freshAddress a)) \<and>
   (\<exists>r w'. getTransactionStatus env w a t = (Resolved r, w') \<and>
           recipientIsReadOnly r = (\<exists>s. subAccountId t = Some s \<and> s \<noteq> []))"
proof (intro conjI impI allI)
  fix d w'
  assume h: "(\<exists>s. subAccountId t = Some s \<and> s \<noteq> []) \<and> recipient t = [] \<and>
           prepareTransaction env w a t = (Resolved d, w')"
  then have "truthy_opt (subAccountId t) \<and> \<not> truthy (recipient t)"
    by (simp add: truthy_opt_iff truthy_def)
  with h prepareTransaction_resolved_recipient[of env w a t d w']
  show "recipient (deref d) = freshAddress a" by simp
next
  assume h: "(\<exists>s. subAccountId t = Some s \<and> s \<noteq> []) \<and> recipient t = [] \<and>
    (networkInfo t \<noteq> None \<or>
     (\<exists>ni. getAccountNetworkInfo env a = Resolved ni \<and> ni_family ni = ''tezos''))"
  then obtain ni where "fst (resolveNetworkInfo env w a t) = Resolved ni"
    using resolveNetworkInfo_resolves[of t env a w] by blast
  then obtain w1 where r: "resolveNetworkInfo env w a t = (Resolved ni, w1)"
    by (cases "resolveNetworkInfo env w a t") simp
  from h have g: "resolveGasAndStorage env w1 a t = (Resolved (gasLimit t, storageLimit t), w1)"
    by (simp add: resolveGasAndStorage_empty_recipient)
  from h have s: "truthy_opt (subAccountId t) \<and> \<not> truthy (recipient t)"
    by (simp add: truthy_opt_iff truthy_def)
  from prepareTransaction_after_networkInfo[OF r] g s
  show "\<exists>d w'. prepareTransaction env w a t = (Resolved d, w') \<and>
            recipient (deref d) = freshAddress a"
    by auto
next
  show "\<exists>r w'. getTransactionStatus env w a t = (Resolved r, w') \<and>
           recipientIsReadOnly r = (\<exists>s. subAccountId t = Some s \<and> s \<noteq> [])"
    by (simp add: getTransactionStatus_def Let_def truthy_opt_iff split: prod.splits)
qed

theorem subAccount_recipient_default_witness:
  "subAccountId subAccountDraft = Some ''tezos:1+KT1'' \<and> ''tezos:1+KT1'' \<noteq> [] \<and>
   recipient subAccountDraft = [] \<and>
   (\<exists>ni. getAccountNetworkInfo exampleEnv exampleAccount = Resolved ni \<and>
         ni_family ni = ''tezos'') \<and>
   (\<exists>d w'. prepareTransaction exampleEnv emptyWorld exampleAccount subAccountDraft =
             (Resolved d, w') \<and>
           recipient (deref d) = ''tz1fresh'') \<and>
   (\<exists>r w'. getTransactionStatus exampleEnv emptyWorld exampleAccount subAccountDraft =
             (Resolved r, w') \<and>
           recipientIsReadOnly r)"
proof -
  have h: "subAccountId subAccountDraft = Some ''tezos:1+KT1''" "''tezos:1+KT1'' \<noteq> []"
    "recipient subAccountDraft = []"
    "\<exists>ni. getAccountNetworkInfo exampleEnv exampleAccount = Resolved ni \<and> ni_family ni = ''tezos''"
    by (simp_all add: example_defs subAccountDraft_def)
  have f: "freshAddress exampleAccount = ''tz1fresh''"
    by (simp add: exampleAccount_def)
  from subAccount_recipient_default[where t = subAccountDraft and env = exampleEnv and
      a = exampleAccount and w = emptyWorld] h f
  show ?thesis by auto
qed

subsection \<open>The network info and the family assertion\<close>

text \<open>
  Claim C8. If the draft's \<open>networkInfo\<close> is absent, \<open>prepareTransaction\<close> fetches it
  (the fetch is the first call it makes) and, whenever the fetched network info has a
  family tag other than \<open>tezos\<close>, is rejected with the assertion failure and does nothing
  else. If \<open>networkInfo\<close> is present, no fetch is made, and no assertion fails: the only
  rejection possible is a rejection of the Gas/Storage Estimator.
\<close>

theorem prepareTransaction_networkInfo:
  "(networkInfo t = None \<longrightarrow>
      (\<exists>cs. calls (snd (prepareTransaction env w a t)) =
               calls w @ CallGetAccountNetworkInfo (acc_id a) # cs) \<and>
      (\<forall>ni. getAccountNetworkInfo env a = Resolved ni \<and> ni_family ni \<noteq> ''tezos'' \<longrightarrow>
            prepareTransaction env w a t =
              (Rejected InvariantViolation, logCall (CallGetAccountNetworkInfo (acc_id a)) w))) \<and>
   (networkInfo t \<noteq> None \<longrightarrow>
      (\<exists>cs. calls (snd (prepareTransaction env w a t)) = calls w @ cs \<and>
            (\<forall>x. CallGetAccountNetworkInfo x \<notin> set cs)) \<and>
      (\<forall>e. fst (prepareTransaction env w a t) = Rejected e \<longrightarrow>
           fst (estimateGasLimitAndStorage env w a (recipient t)) = Rejected e))"
proof (intro conjI impI allI)
  assume n: "networkInfo t = None"
  let ?w1 = "logCall (CallGetAccountNetworkInfo (acc_id a)) w"
  obtain cs where cs: "calls (snd (resolveGasAndStorage env ?w1 a t)) = calls ?w1 @ cs"
    using resolveGasAndStorage_calls by blast
  have "snd (prepareTransaction env w a t) = ?w1 \<or>
        snd (prepareTransaction env w a t) = snd (resolveGasAndStorage env ?w1 a t)"
    using n by (auto simp: prepareTransaction_world resolveNetworkInfo_def Let_def split: promise.splits)
  then show "\<exists>cs. calls (snd (prepareTransaction env w a t)) =
               calls w @ CallGetAccountNetworkInfo (acc_id a) # cs"
    using cs by auto
next
  fix ni
  assume "networkInfo t = None"
    and "getAccountNetworkInfo env a = Resolved ni \<and> ni_family ni \<noteq> ''tezos''"
  then show "prepareTransaction env w a t =
              (Rejected InvariantViolation, logCall (CallGetAccountNetworkInfo (acc_id a)) w)"
    by (simp add: prepareTransaction_def resolveNetworkInfo_def Let_def)
next
  assume "networkInfo t \<noteq> None"
  then obtain ni where "networkInfo t = Some ni" by blast
  then have "snd (prepareTransaction env w a t) = snd (resolveGasAndStorage env w a t)"
    by (simp add: prepareTransaction_world resolveNetworkInfo_present)
  then show "\<exists>cs. calls (snd (prepareTransaction env w a t)) = calls w @ cs \<and>
            (\<forall>x. CallGetAccountNetworkInfo x \<notin> set cs)"
    using resolveGasAndStorage_calls[of env w a t] by simp
next
  fix e
  assume "networkInfo t \<noteq> None" and rej: "fst (prepareTransaction env w a t) = Rejected e"
  then obtain ni where "networkInfo t = Some ni" by blast
  then have r: "resolveNetworkInfo env w a t = (Resolved ni, w)"
    by (rule resolveNetworkInfo_present)
  have "fst (resolveGasAndStorage env w a t) = Rejected e"
  proof (cases "fst (resolveGasAndStorage env w a t)")
    case (Resolved gs)
    with prepareTransaction_after_networkInfo[OF r] rej show ?thesis
      by (cases gs) auto
  next
    case (Rejected e')
    with prepareTransaction_after_networkInfo[OF r] rej show ?thesis by auto
  qed
  then have "fst (estimateGasLimitAndStorage env
                (logCall (CallValidateRecipient (currency a) (recipient t)) w) a (recipient t)) =
             Rejected e"
    by (rule resolveGasAndStorage_rejected)
  then show "fst (estimateGasLimitAndStorage env w a (recipient t)) = Rejected e"
    using estimateGasLimitAndStorage_outcome[of w
        "logCall (CallValidateRecipient (currency a) (recipient t)) w" env a "recipient t"]
    by simp
qed

theorem prepareTransaction_networkInfo_witness:
  "networkInfo sendDraft = None \<and>
   getAccountNetworkInfo bitcoinEnv exampleAccount = Resolved \<lparr>ni_family = ''bitcoin'', ni_fees = 1\<rparr> \<and>
   ''bitcoin'' \<noteq> ''tezos'' \<and>
   prepareTransaction bitcoinEnv emptyWorld exampleAccount sendDraft =
     (Rejected InvariantViolation, emptyWorld\<lparr>calls := [CallGetAccountNetworkInfo ''tezos:1'']\<rparr>) \<and>
   networkInfo preparedDraft \<noteq> None \<and>
   (\<exists>cs. calls (snd (prepareTransaction bitcoinEnv emptyWorld exampleAccount preparedDraft)) =
           calls emptyWorld @ cs \<and>
         (\<forall>x. CallGetAccountNetworkInfo x \<notin> set cs)) \<and>
   networkInfo networkReadyDraft \<noteq> None \<and>
   fst (prepareTransaction failingEstimateEnv emptyWorld exampleAccount networkReadyDraft) =
     Rejected LibcoreFailure \<and>
   fst (estimateGasLimitAndStorage failingEstimateEnv emptyWorld exampleAccount
     (recipient networkReadyDraft)) = Rejected LibcoreFailure"
proof -
  have n: "networkInfo sendDraft = None"
    and g: "getAccountNetworkInfo bitcoinEnv exampleAccount =
              Resolved \<lparr>ni_family = ''bitcoin'', ni_fees = 1\<rparr>"
    and f: "ni_family \<lparr>ni_family = ''bitcoin'', ni_fees = 1\<rparr> \<noteq> ''tezos''"
    and p: "networkInfo preparedDraft \<noteq> None"
    and q: "networkInfo networkReadyDraft \<noteq> None"
    and w: "logCall (CallGetAccountNetworkInfo (acc_id exampleAccount)) emptyWorld =
              emptyWorld\<lparr>calls := [CallGetAccountNetworkInfo ''tezos:1'']\<rparr>"
    by (simp_all add: example_defs sendDraft_def preparedDraft_def networkReadyDraft_def
        bitcoinEnv_def logCall_def)
  have r: "fst (prepareTransaction failingEstimateEnv emptyWorld exampleAccount networkReadyDraft) =
     Rejected LibcoreFailure"
    by (simp add: example_defs sendDraft_def networkReadyDraft_def failingEstimateEnv_def
        model_defs)
  from prepareTransaction_networkInfo[of sendDraft bitcoinEnv emptyWorld exampleAccount] n g f
  have "prepareTransaction bitcoinEnv emptyWorld exampleAccount sendDraft =
     (Rejected InvariantViolation, logCall (CallGetAccountNetworkInfo (acc_id exampleAccount)) emptyWorld)"
    by blast
  moreover
  from prepareTransaction_networkInfo[of preparedDraft bitcoinEnv emptyWorld exampleAccount] p
  have "\<exists>cs. calls (snd (prepareTransaction bitcoinEnv emptyWorld exampleAccount preparedDraft)) =
           calls emptyWorld @ cs \<and>
         (\<forall>x. CallGetAccountNetworkInfo x \<notin> set cs)"
    by blast
  moreover
  from prepareTransaction_networkInfo[of networkReadyDraft failingEstimateEnv emptyWorld
      exampleAccount] q r
  have "fst (estimateGasLimitAndStorage failingEstimateEnv emptyWorld exampleAccount
     (recipient networkReadyDraft)) = Rejected LibcoreFailure"
    by blast
  ultimately show ?thesis using n g p q r w by simp
qed

subsection \<open>The cache key of the Fee Calculator\<close>

text \<open>
  Claim C9. Let \<open>toString\<close> of \<^verbatim>\<open>BigNumber\<close> be injective and never empty. For every two
  inputs of the Fee Calculator that agree on the account identifier and on four of the
  five fields \<open>amount\<close>, \<open>recipient\<close>, \<open>gasLimit\<close>, \<open>storageLimit\<close>, \<open>fees\<close> and differ on
  the remaining one, the key function of lines 48-53 gives different keys, and the change
  forces a recomputation: when the cache has no entry of its own for the second input,
  a call for the first input leaves it without one, and the call for the second input
  that follows invokes the computation anew: it validates the second recipient, asks the
  pricing collaborator about the second input when the recipient is valid, and returns
  that outcome, not what was cached for the first input.
\<close>

theorem calculateFees_key_sensitive:
  assumes inj: "inj (bnToString env)" and ne: "\<forall>b. bnToString env b \<noteq> []"
    and ids: "acc_id a1 = acc_id a2"
    and one:
      "(amount t1 \<noteq> amount t2 \<and> recipient t1 = recipient t2 \<and> gasLimit t1 = gasLimit t2 \<and>
          storageLimit t1 = storageLimit t2 \<and> fees t1 = fees t2) \<or>
       (amount t1 = amount t2 \<and> recipient t1 \<noteq> recipient t2 \<and> gasLimit t1 = gasLimit t2 \<and>
          storageLimit t1 = storageLimit t2 \<and> fees t1 = fees t2) \<or>
       (amount t1 = amount t2 \<and> recipient t1 = recipient t2 \<and> gasLimit t1 \<noteq> gasLimit t2 \<and>
          storageLimit t1 = storageLimit t2 \<and> fees t1 = fees t2) \<or>
       (amount t1 = amount t2 \<and> recipient t1 = recipient t2 \<and> gasLimit t1 = gasLimit t2 \<and>
          storageLimit t1 \<noteq> storageLimit t2 \<and> fees t1 = fees t2) \<or>
       (amount t1 = amount t2 \<and> recipient t1 = recipient t2 \<and> gasLimit t1 = gasLimit t2 \<and>
          storageLimit t1 = storageLimit t2 \<and> fees t1 \<noteq> fees t2)"
  shows "calculateFees_key env a1 t1 \<noteq> calculateFees_key env a2 t2 \<and>
         (map_of (feesCache w) (calculateFees_key env a2 t2) = None \<longrightarrow>
          map_of (feesCache (snd (calculateFees env w a1 t1))) (calculateFees_key env a2 t2) = None \<and>
          fst (calculateFees env (snd (calculateFees env w a1 t1)) a2 t2) =
            (case recipientError (validateRecipient env (currency a2) (recipient t2)) of
               Some e \<Rightarrow> Rejected e
             | None \<Rightarrow> getFeesForTransaction env a2 t2) \<and>
          calls (snd (calculateFees env (snd (calculateFees env w a1 t1)) a2 t2)) =
            calls (snd (calculateFees env w a1 t1)) @
              CallCalculateFees (calculateFees_key env a2 t2) #
              CallValidateRecipient (currency a2) (recipient t2) #
              (case recipientError (validateRecipient env (currency a2) (recipient t2)) of
                 Some e \<Rightarrow> []
               | None \<Rightarrow> [CallGetFeesForTransaction (acc_id a2)]))"
proof -
  have k: "calculateFees_key env a1 t1 \<noteq> calculateFees_key env a2 t2"
  proof
    assume eq: "calculateFees_key env a1 t1 = calculateFees_key env a2 t2"
    from one show False
    proof (elim disjE conjE)
      assume d: "amount t1 \<noteq> amount t2" and r: "recipient t1 = recipient t2" "gasLimit t1 = gasLimit t2"
        "storageLimit t1 = storageLimit t2" "fees t1 = fees t2"
      from eq ids r have "bnToString env (amount t1) = bnToString env (amount t2)"
        by (simp add: calculateFees_key_def)
      with inj d show False by (auto dest: injD)
    next
      assume d: "recipient t1 \<noteq> recipient t2" and r: "amount t1 = amount t2" "gasLimit t1 = gasLimit t2"
        "storageLimit t1 = storageLimit t2" "fees t1 = fees t2"
      from eq ids r have "recipient t1 = recipient t2"
        by (simp add: calculateFees_key_def)
      with d show False by simp
    next
      assume d: "gasLimit t1 \<noteq> gasLimit t2" and r: "amount t1 = amount t2" "recipient t1 = recipient t2"
        "storageLimit t1 = storageLimit t2" "fees t1 = fees t2"
      from eq ids r have "bnOrEmpty env (gasLimit t1) = bnOrEmpty env (gasLimit t2)"
        by (simp add: calculateFees_key_def)
      with d bnOrEmpty_inj[OF inj ne] show False by blast
    next
      assume d: "storageLimit t1 \<noteq> storageLimit t2" and r: "amount t1 = amount t2" "recipient t1 = recipient t2"
        "gasLimit t1 = gasLimit t2" "fees t1 = fees t2"
      from eq ids r have "bnOrEmpty env (storageLimit t1) = bnOrEmpty env (storageLimit t2)"
        by (simp add: calculateFees_key_def)
      with d bnOrEmpty_inj[OF inj ne] show False by blast
    next
      assume d: "fees t1 \<noteq> fees t2" and r: "amount t1 = amount t2" "recipient t1 = recipient t2"
        "gasLimit t1 = gasLimit t2" "storageLimit t1 = storageLimit t2"
      from eq ids r have "bnOrEmpty env (fees t1) = bnOrEmpty env (fees t2)"
        by (simp add: calculateFees_key_def)
      with d bnOrEmpty_inj[OF inj ne] show False by blast
    qed
  qed
  show ?thesis
  proof (intro conjI impI)
    show "calculateFees_key env a1 t1 \<noteq> calculateFees_key env a2 t2" by (rule k)
  next
    assume m: "map_of (feesCache w) (calculateFees_key env a2 t2) = None"
    with k calculateFees_other_key_miss[of "calculateFees_key env a2 t2" env a1 t1 w]
    have m': "map_of (feesCache (snd (calculateFees env w a1 t1))) (calculateFees_key env a2 t2) =
        None"
      by auto
    note r = calculateFees_miss[OF m']
    show "map_of (feesCache (snd (calculateFees env w a1 t1))) (calculateFees_key env a2 t2) = None"
      by (rule m')
    show "fst (calculateFees env (snd (calculateFees env w a1 t1)) a2 t2) =
            (case recipientError (validateRecipient env (currency a2) (recipient t2)) of
               Some e \<Rightarrow> Rejected e
             | None \<Rightarrow> getFeesForTransaction env a2 t2)"
      using r by (rule conjunct1)
    show "calls (snd (calculateFees env (snd (calculateFees env w a1 t1)) a2 t2)) =
            calls (snd (calculateFees env w a1 t1)) @
              CallCalculateFees (calculateFees_key env a2 t2) #
              CallValidateRecipient (currency a2) (recipient t2) #
              (case recipientError (validateRecipient env (currency a2) (recipient t2)) of
                 Some e \<Rightarrow> []
               | None \<Rightarrow> [CallGetFeesForTransaction (acc_id a2)])"
      using r by (rule conjunct2)
  qed
qed

theorem calculateFees_key_sensitive_witness:
  "inj (bnToString exampleEnv) \<and> (\<forall>b. bnToString exampleEnv b \<noteq> []) \<and>
   acc_id exampleAccount = acc_id exampleAccount \<and>
   amount (feeDraft 10) = amount (feeDraft 11) \<and> recipient (feeDraft 10) = recipient (feeDraft 11) \<and>
   gasLimit (feeDraft 10) = gasLimit (feeDraft 11) \<and>
   storageLimit (feeDraft 10) = storageLimit (feeDraft 11) \<and>
   fees (feeDraft 10) \<noteq> fees (feeDraft 11) \<and>
   map_of (feesCache emptyWorld) (calculateFees_key exampleEnv exampleAccount (feeDraft 11)) = None \<and>
   fst (calculateFees exampleEnv emptyWorld exampleAccount (feeDraft 10)) = Resolved 10 \<and>
   calculateFees_key exampleEnv exampleAccount (feeDraft 10) \<noteq>
     calculateFees_key exampleEnv exampleAccount (feeDraft 11) \<and>
   fst (calculateFees exampleEnv
          (snd (calculateFees exampleEnv emptyWorld exampleAccount (feeDraft 10)))
          exampleAccount (feeDraft 11)) = Resolved 11 \<and>
   calls (snd (calculateFees exampleEnv
          (snd (calculateFees exampleEnv emptyWorld exampleAccount (feeDraft 10)))
          exampleAccount (feeDraft 11))) =
     calls (snd (calculateFees exampleEnv emptyWorld exampleAccount (feeDraft 10))) @
       [CallCalculateFees (calculateFees_key exampleEnv exampleAccount (feeDraft 11)),
        CallValidateRecipient ''tezos'' ''tz1abc'', CallGetFeesForTransaction ''tezos:1'']"
proof -
  have i: "inj (bnToString exampleEnv)"
    and n: "\<forall>b. bnToString exampleEnv b \<noteq> []"
    by (simp_all add: exampleEnv_def decimal_inj decimal_nonempty)
  have d: "amount (feeDraft 10) = amount (feeDraft 11) \<and>
      recipient (feeDraft 10) = recipient (feeDraft 11) \<and>
      gasLimit (feeDraft 10) = gasLimit (feeDraft 11) \<and>
      storageLimit (feeDraft 10) = storageLimit (feeDraft 11) \<and>
      fees (feeDraft 10) \<noteq> fees (feeDraft 11)"
    by (simp add: feeDraft_def createTransaction_def)
  have e: "map_of (feesCache emptyWorld) (calculateFees_key exampleEnv exampleAccount (feeDraft 11)) =
      None"
    by (simp add: emptyWorld_def)
  have f: "fst (calculateFees exampleEnv emptyWorld exampleAccount (feeDraft 10)) = Resolved 10"
    by (simp add: example_defs feeDraft_def model_defs)
  have v: "recipientError (validateRecipient exampleEnv (currency exampleAccount)
        (recipient (feeDraft 11))) = None"
    "getFeesForTransaction exampleEnv exampleAccount (feeDraft 11) = Resolved 11"
    "currency exampleAccount = ''tezos''" "recipient (feeDraft 11) = ''tz1abc''"
    "acc_id exampleAccount = ''tezos:1''"
    by (simp_all add: example_defs feeDraft_def)
  from calculateFees_key_sensitive[OF i n refl[of "acc_id exampleAccount"],
      where ?t1.0 = "feeDraft 10" and ?t2.0 = "feeDraft 11" and w = emptyWorld]
    d e i n f v
  show ?thesis by simp
qed

end
